theory Spec2Isabelle
  imports Main
begin

section \<open>Tensors as seen by the batching rules\<close>

text \<open>
  The batching rules of \<^verbatim>\<open>functorch/csrc/BatchRulesBinaryOps.cpp\<close> only look at the
  sizes and the dtype of a tensor and hand the tensor on to the tensor runtime. A tensor
  is modelled by its sizes (\<^verbatim>\<open>int64_t\<close> values, here \<open>int\<close>: no rank or size in
  this file comes near the 64-bit range), its dtype and its elements, read by index.
\<close>

datatype ScalarType =
  kByte | kChar | kShort | kInt | kLong | kHalf | kFloat | kDouble | kBool

record 'a Tensor =
  sizes :: "int list"
  scalar_type :: ScalarType
  elems :: "int list \<Rightarrow> 'a"

text \<open>
  Every exception of the source is a value. The three kinds the rules raise themselves
  carry the names of section 7 of the specification; \<open>IndexError\<close> is the runtime's
  error for an index or axis that does not exist, \<open>RuntimeError\<close> any other failure.
\<close>

datatype error =
  IndexError
  | IncompatibleInPlaceBatching
  | UnsupportedMaskBatching
  | AmbiguousRandomness
  | RuntimeError

text \<open>
  An operation of the tensor runtime (a kernel) may read and change state that the rules
  never look at (the random generator, tensor storage) and may raise. It is a function
  from the state before the call to its outcome and the state after.
\<close>

type_synonym ('s, 'r) kernel = "'s \<Rightarrow> (error + 'r) \<times> 's"

text \<open>
  The two services of the runtime the alignment needs besides views: the dtype a binary
  operation would give for two operands (\<^verbatim>\<open>at::native::result_type\<close>) and the
  conversion of one element to a dtype (inside \<^verbatim>\<open>Tensor::to\<close>). Both belong to
  the runtime and are parameters of the model.
\<close>

record 'a Runtime =
  result_type :: "'a Tensor \<Rightarrow> 'a Tensor \<Rightarrow> ScalarType"
  convert :: "ScalarType \<Rightarrow> 'a \<Rightarrow> 'a"

subsection \<open>Runtime views\<close>

definition dim :: "'a Tensor \<Rightarrow> int" where
  "dim t = int (length (sizes t))"

text \<open>\<^verbatim>\<open>tensor.movedim(d, 0)\<close>: axis \<open>d\<close> becomes axis 0, the others keep their order.\<close>

definition movedim_front :: "'a Tensor \<Rightarrow> int \<Rightarrow> error + 'a Tensor" where
  "movedim_front t d =
     (if 0 \<le> d \<and> d < dim t then
        Inr (t\<lparr>sizes := (sizes t ! nat d) # (take (nat d) (sizes t) @ drop (Suc (nat d)) (sizes t)),
               elems := (\<lambda>idx. elems t (take (nat d) (drop 1 idx) @ take 1 idx @ drop (nat d) (drop 1 idx)))\<rparr>)
      else Inl IndexError)"

text \<open>\<^verbatim>\<open>tensor[0]\<close>: the first slot along axis 0; there is none in a 0-d tensor or
  when axis 0 is empty.\<close>

definition select_first :: "'a Tensor \<Rightarrow> error + 'a Tensor" where
  "select_first t =
     (case sizes t of
        [] \<Rightarrow> Inl IndexError
      | n # ns \<Rightarrow>
          if n \<le> 0 then Inl IndexError
          else Inr (t\<lparr>sizes := ns, elems := (\<lambda>idx. elems t (0 # idx))\<rparr>))"

text \<open>\<^verbatim>\<open>tensor.to(dtype)\<close>.\<close>

definition to :: "'a Runtime \<Rightarrow> 'a Tensor \<Rightarrow> ScalarType \<Rightarrow> 'a Tensor" where
  "to R t d = t\<lparr>scalar_type := d, elems := (\<lambda>idx. convert R d (elems t idx))\<rparr>"

text \<open>\<^verbatim>\<open>tensor.view(new_sizes)\<close> where \<open>new_sizes\<close> has \<open>k\<close> axes of size 1
  inserted at position 1: the new axes are only ever indexed by 0 and are dropped from
  the index.\<close>

definition view_pad :: "'a Tensor \<Rightarrow> nat \<Rightarrow> 'a Tensor" where
  "view_pad t k =
     t\<lparr>sizes := take 1 (sizes t) @ replicate k 1 @ drop 1 (sizes t),
       elems := (\<lambda>idx. elems t (take 1 idx @ drop (Suc k) idx))\<rparr>"

text \<open>\<^verbatim>\<open>tensor.unsqueeze(0).expand(n # sizes)\<close>: a new leading axis of size \<open>n\<close>
  along which every slot is the tensor itself.\<close>

definition expand_front :: "'a Tensor \<Rightarrow> int \<Rightarrow> 'a Tensor" where
  "expand_front t n = t\<lparr>sizes := n # sizes t, elems := (\<lambda>idx. elems t (drop 1 idx))\<rparr>"

section \<open>Helpers of the batching rules\<close>

text \<open>
  Modelled from the spec: \<^verbatim>\<open>rankWithoutBatchDim\<close> of BatchRulesHelper, which is not
  among the sources. Section 4.1 step 1: the logical rank is the physical rank minus one
  when the operand has a batch dim.
\<close>

definition rankWithoutBatchDim :: "'a Tensor \<Rightarrow> int option \<Rightarrow> int" where
  "rankWithoutBatchDim t bdim = dim t - (case bdim of None \<Rightarrow> 0 | Some _ \<Rightarrow> 1)"

text \<open>
  Modelled from the spec: \<^verbatim>\<open>moveBatchDimToFront\<close> of BatchRulesHelper, which is not
  among the sources. Section 4.1 step 2: the batch dim, if present, is moved to physical
  position 0. Section 3 requires a batch dim to name a physical axis of the payload; an
  index that names none is the runtime's \<open>IndexError\<close>.
\<close>

definition moveBatchDimToFront :: "'a Tensor \<Rightarrow> int option \<Rightarrow> error + 'a Tensor" where
  "moveBatchDimToFront t bdim =
     (case bdim of None \<Rightarrow> Inr t | Some d \<Rightarrow> movedim_front t d)"

text \<open>
  Modelled from the spec: \<^verbatim>\<open>maybePadToLogicalRank\<close> of BatchRulesHelper, which is not
  among the sources. Section 4.1 step 4: an operand with a batch dim (at position 0 by
  now) gets size-1 axes right after the batch axis until its logical rank is the given
  one; an operand without a batch dim is returned as it is.
\<close>

definition maybePadToLogicalRank :: "'a Tensor \<Rightarrow> int option \<Rightarrow> int \<Rightarrow> 'a Tensor" where
  "maybePadToLogicalRank t has_bdim logical_rank =
     (case has_bdim of
        None \<Rightarrow> t
      | Some _ \<Rightarrow>
          (let tensor_logical_rank = rankWithoutBatchDim t has_bdim in
           if tensor_logical_rank \<ge> logical_rank then t
           else view_pad t (nat (logical_rank - tensor_logical_rank))))"

section \<open>The alignment algorithm\<close>

definition handleScalarTypePromotion ::
  "'a Runtime \<Rightarrow> 'a Tensor \<Rightarrow> 'a Tensor \<Rightarrow> error + ('a Tensor \<times> 'a Tensor)" where
  "handleScalarTypePromotion R logical_scalar_tensor second =
     (case select_first logical_scalar_tensor of
        Inl e \<Rightarrow> Inl e
      | Inr slot0 \<Rightarrow>
          (let rt = result_type R slot0 second;
               logical_scalar_tensor' =
                 (if scalar_type logical_scalar_tensor \<noteq> rt
                  then to R logical_scalar_tensor rt else logical_scalar_tensor);
               second' = (if scalar_type second \<noteq> rt then to R second rt else second)
           in Inr (logical_scalar_tensor', second')))"

text \<open>\<^verbatim>\<open>_binary_pointwise_helper\<close> (an Isabelle name cannot start with an underscore).\<close>

definition binary_pointwise_helper ::
  "'a Runtime \<Rightarrow> 'a Tensor \<Rightarrow> int option \<Rightarrow> 'a Tensor \<Rightarrow> int option
     \<Rightarrow> error + ('a Tensor \<times> 'a Tensor)" where
  "binary_pointwise_helper R tensor tensor_batch_dim other other_batch_dim =
     (let tensor_logical_rank = rankWithoutBatchDim tensor tensor_batch_dim;
          other_logical_rank = rankWithoutBatchDim other other_batch_dim;
          max_logical_rank = max tensor_logical_rank other_logical_rank
      in
      case moveBatchDimToFront tensor tensor_batch_dim of
        Inl e \<Rightarrow> Inl e
      | Inr tensor0 \<Rightarrow>
      (case moveBatchDimToFront other other_batch_dim of
        Inl e \<Rightarrow> Inl e
      | Inr other0 \<Rightarrow>
      (let tensor_is_logical_scalar = (tensor_logical_rank = 0 \<and> tensor_batch_dim \<noteq> None);
           other_is_logical_scalar = (other_logical_rank = 0 \<and> other_batch_dim \<noteq> None)
       in
       case (if tensor_is_logical_scalar \<and> \<not> other_is_logical_scalar
             then handleScalarTypePromotion R tensor0 other0
             else Inr (tensor0, other0)) of
         Inl e \<Rightarrow> Inl e
       | Inr (tensor1, other1) \<Rightarrow>
       (case (if other_is_logical_scalar \<and> \<not> tensor_is_logical_scalar
              then (case handleScalarTypePromotion R other1 tensor1 of
                      Inl e \<Rightarrow> Inl e
                    | Inr (o', t') \<Rightarrow> Inr (t', o'))
              else Inr (tensor1, other1)) of
          Inl e \<Rightarrow> Inl e
        | Inr (tensor2, other2) \<Rightarrow>
            Inr (maybePadToLogicalRank tensor2 tensor_batch_dim max_logical_rank,
                 maybePadToLogicalRank other2 other_batch_dim max_logical_rank)))))"

section \<open>The pointwise and the comparison rule\<close>

text \<open>\<^verbatim>\<open>_binary_pointwise_batch_rule<F, Func, ExtraArgs...>\<close>; \<open>Func'\<close> is the
  operation of the runtime being wrapped, \<open>extra_args\<close> its further arguments.\<close>

definition binary_pointwise_batch_rule ::
  "'a Runtime \<Rightarrow> ('a Tensor \<Rightarrow> 'a Tensor \<Rightarrow> 'e \<Rightarrow> ('s, 'r) kernel)
     \<Rightarrow> 'a Tensor \<Rightarrow> int option \<Rightarrow> 'a Tensor \<Rightarrow> int option \<Rightarrow> 'e
     \<Rightarrow> ('s, 'r \<times> int option) kernel" where
  "binary_pointwise_batch_rule R Func' tensor tensor_batch_dim other other_batch_dim extra_args s =
     (case binary_pointwise_helper R tensor tensor_batch_dim other other_batch_dim of
        Inl e \<Rightarrow> (Inl e, s)
      | Inr (tensor', other') \<Rightarrow>
          (case Func' tensor' other' extra_args s of
             (Inl e, s') \<Rightarrow> (Inl e, s')
           | (Inr result, s') \<Rightarrow> (Inr (result, Some 0), s')))"

text \<open>\<^verbatim>\<open>comparison_pointwise_batch_rule<F, Func>\<close>.\<close>

definition comparison_pointwise_batch_rule ::
  "('a Tensor \<Rightarrow> 'a Tensor \<Rightarrow> ('s, 'r) kernel)
     \<Rightarrow> 'a Tensor \<Rightarrow> int option \<Rightarrow> 'a Tensor \<Rightarrow> int option
     \<Rightarrow> ('s, 'r \<times> int option) kernel" where
  "comparison_pointwise_batch_rule Func' tensor tensor_batch_dim other other_batch_dim s =
     (let tensor_logical_rank = rankWithoutBatchDim tensor tensor_batch_dim;
          other_logical_rank = rankWithoutBatchDim other other_batch_dim;
          max_logical_rank = max tensor_logical_rank other_logical_rank
      in
      case moveBatchDimToFront tensor tensor_batch_dim of
        Inl e \<Rightarrow> (Inl e, s)
      | Inr tensor0 \<Rightarrow>
      (case moveBatchDimToFront other other_batch_dim of
        Inl e \<Rightarrow> (Inl e, s)
      | Inr other0 \<Rightarrow>
      (let tensor' = maybePadToLogicalRank tensor0 tensor_batch_dim max_logical_rank;
           other' = maybePadToLogicalRank other0 other_batch_dim max_logical_rank
       in
       case Func' tensor' other' s of
         (Inl e, s') \<Rightarrow> (Inl e, s')
       | (Inr result, s') \<Rightarrow> (Inr (result, Some 0), s'))))"

section \<open>The in-place rule\<close>

text \<open>
  Modelled from the spec: \<^verbatim>\<open>vmapIncompatibleInplaceError\<close> of BatchRulesHelper, which
  is not among the sources. Sections 4.3 and 7: it signals the error
  \<open>IncompatibleInPlaceBatching\<close> and does not return; its argument is part of the
  message only.
\<close>

definition vmapIncompatibleInplaceError :: "string \<Rightarrow> ('s, 'r) kernel" where
  "vmapIncompatibleInplaceError schema_name s = (Inl IncompatibleInPlaceBatching, s)"

text \<open>
  \<^verbatim>\<open>binary_pointwise_inplace_batch_rule<M, Meth, ExtraArgs...>\<close>. \<open>Meth\<close> is the
  mutating method; what it writes is part of the state it returns, the reference to
  \<open>self\<close> it gives back is dropped by the rule.
\<close>

definition binary_pointwise_inplace_batch_rule ::
  "('a Tensor \<Rightarrow> 'a Tensor \<Rightarrow> 'e \<Rightarrow> ('s, 'r) kernel)
     \<Rightarrow> 'a Tensor \<Rightarrow> int option \<Rightarrow> 'a Tensor \<Rightarrow> int option \<Rightarrow> 'e
     \<Rightarrow> ('s, unit) kernel" where
  "binary_pointwise_inplace_batch_rule Meth tensor tensor_batch_dim other other_batch_dim extra_args s =
     (if tensor_batch_dim = None \<and> other_batch_dim \<noteq> None
      then vmapIncompatibleInplaceError ''inplace arithmetic'' s
      else
       (let tensor_logical_rank = rankWithoutBatchDim tensor tensor_batch_dim;
            other_logical_rank = rankWithoutBatchDim other other_batch_dim;
            max_logical_rank = max tensor_logical_rank other_logical_rank
        in
        case moveBatchDimToFront tensor tensor_batch_dim of
          Inl e \<Rightarrow> (Inl e, s)
        | Inr tensor0 \<Rightarrow>
        (case moveBatchDimToFront other other_batch_dim of
          Inl e \<Rightarrow> (Inl e, s)
        | Inr other0 \<Rightarrow>
        (let tensor' = maybePadToLogicalRank tensor0 tensor_batch_dim max_logical_rank;
             other' = maybePadToLogicalRank other0 other_batch_dim max_logical_rank
         in
         case Meth tensor' other' extra_args s of
           (Inl e, s') \<Rightarrow> (Inl e, s')
         | (Inr _, s') \<Rightarrow> (Inr (), s')))))"

section \<open>The randomness-aware rule\<close>

datatype RandomnessType = Error | Same | Different

text \<open>The current dynamic layer (\<^verbatim>\<open>maybeCurrentDynamicLayer()\<close>, which the rule
  dereferences without a check): the fields the rule reads.\<close>

record DynamicLayer =
  layerId :: int
  randomness :: RandomnessType
  batchSize :: int

text \<open>
  Modelled from the spec: \<^verbatim>\<open>check_randomness\<close> of BatchRulesHelper, which is not
  among the sources. Section 4.5 step 2: it fails if the mode is \<open>Error\<close> and at least
  one operand is batched; section 7 names the error.
\<close>

definition check_randomness :: "RandomnessType \<Rightarrow> bool \<Rightarrow> error + unit" where
  "check_randomness r any_tensor_batched =
     (if r = Error \<and> any_tensor_batched then Inl AmbiguousRandomness else Inr ())"

text \<open>
  Modelled from the spec: \<^verbatim>\<open>makeBatched\<close>, which is not among the sources. Sections 2
  and 3: the result is re-wrapped as a BatchedValue of payload, batch dim and level.
\<close>

record 'r BatchedValue =
  payload :: 'r
  batch_dim :: "int option"
  level :: int

definition makeBatched :: "'r \<Rightarrow> int option \<Rightarrow> int \<Rightarrow> 'r BatchedValue" where
  "makeBatched t bdim lvl = \<lparr>payload = t, batch_dim = bdim, level = lvl\<rparr>"

text \<open>What the rule hands back to its caller: the plain result of the operation, or a
  re-wrapped one.\<close>

datatype 'r Returned = Plain 'r | Rewrapped "'r BatchedValue"

text \<open>
  \<^verbatim>\<open>BinaryRandomPointwiseBatchRuleHelper<F, Func, typelist<T1, T2, T...>>::apply\<close>.
  \<^verbatim>\<open>unwrapTensorAtLevel\<close> is not among the sources and the specification leaves the
  caller-visible value opaque (section 6), so it is a parameter: it gives the physical
  tensor and the batch dim the operand has at the level. \<open>rest\<close> is the end of the
  function, from the call of \<^verbatim>\<open>_binary_pointwise_batch_rule\<close> on, which the source
  reaches with or without the broadcast first operand.
\<close>

definition BinaryRandomPointwiseBatchRuleHelper_apply ::
  "'a Runtime \<Rightarrow> DynamicLayer \<Rightarrow> ('w \<Rightarrow> int \<Rightarrow> 'a Tensor \<times> int option)
     \<Rightarrow> ('a Tensor \<Rightarrow> 'a Tensor \<Rightarrow> 'e \<Rightarrow> ('s, 'r) kernel)
     \<Rightarrow> 'w \<Rightarrow> 'w \<Rightarrow> 'e \<Rightarrow> ('s, 'r Returned) kernel" where
  "BinaryRandomPointwiseBatchRuleHelper_apply R maybe_layer unwrapTensorAtLevel Func' tensor other extra_args s =
     (let cur_level = layerId maybe_layer;
          randomness' = randomness maybe_layer;
          (tensor_value, tensor_bdim) = unwrapTensorAtLevel tensor cur_level;
          (other_value, other_bdim) = unwrapTensorAtLevel other cur_level;
          rest = (\<lambda>tensor_value' tensor_bdim'.
            case binary_pointwise_batch_rule R Func' tensor_value' tensor_bdim'
                   other_value other_bdim extra_args s of
              (Inl e, s') \<Rightarrow> (Inl e, s')
            | (Inr res, s') \<Rightarrow>
                (Inr (Rewrapped (makeBatched (fst res) (snd res) cur_level)), s'))
      in
      case check_randomness randomness' (tensor_bdim \<noteq> None \<or> other_bdim \<noteq> None) of
        Inl e \<Rightarrow> (Inl e, s)
      | Inr _ \<Rightarrow>
          if randomness' = Different \<and> tensor_bdim = None \<and> other_bdim = None then
            rest (expand_front tensor_value (batchSize maybe_layer)) (Some 0)
          else if randomness' = Same \<and> tensor_bdim = None \<and> other_bdim = None then
            (case Func' tensor_value other_value extra_args s of
               (Inl e, s') \<Rightarrow> (Inl e, s')
             | (Inr r, s') \<Rightarrow> (Inr (Plain r), s'))
          else rest tensor_value tensor_bdim)"

section \<open>Select-by-mask\<close>

text \<open>\<^verbatim>\<open>tensor.size(d)\<close> for an axis given, as batch dims are, by its index from 0.\<close>

definition size_at :: "'a Tensor \<Rightarrow> int \<Rightarrow> error + int" where
  "size_at t d = (if 0 \<le> d \<and> d < dim t then Inr (sizes t ! nat d) else Inl IndexError)"

text \<open>
  \<^verbatim>\<open>tensor.view({n, -1})\<close> of a 1-d tensor: the second size is inferred, which needs
  \<open>n\<close> positive and a divisor of the number of elements.
\<close>

definition view_rows :: "'a Tensor \<Rightarrow> int \<Rightarrow> error + 'a Tensor" where
  "view_rows t n =
     (let numel = prod_list (sizes t) in
      if 0 < n \<and> numel mod n = 0 then
        Inr (t\<lparr>sizes := [n, numel div n],
               elems := (\<lambda>idx. elems t [(idx ! 0) * (numel div n) + idx ! 1])\<rparr>)
      else Inl RuntimeError)"

text \<open>
  \<^verbatim>\<open>masked_select_batch_rule\<close>. \<open>masked_select\<close> is the runtime's
  \<^verbatim>\<open>at::masked_select\<close>; \<^verbatim>\<open>TORCH_CHECK\<close> raises when its condition fails, here
  the error section 7 calls \<open>UnsupportedMaskBatching\<close>.
\<close>

definition masked_select_batch_rule ::
  "('a Tensor \<Rightarrow> 'm Tensor \<Rightarrow> ('s, 'a Tensor) kernel)
     \<Rightarrow> 'a Tensor \<Rightarrow> int option \<Rightarrow> 'm Tensor \<Rightarrow> int option
     \<Rightarrow> ('s, 'a Tensor \<times> int option) kernel" where
  "masked_select_batch_rule masked_select self self_bdim mask' mask_bdim s =
     (if mask_bdim \<noteq> None then (Inl UnsupportedMaskBatching, s)
      else
       case moveBatchDimToFront self self_bdim of
         Inl e \<Rightarrow> (Inl e, s)
       | Inr self0 \<Rightarrow>
       (case size_at self0 0 of
         Inl e \<Rightarrow> (Inl e, s)
       | Inr batch_size \<Rightarrow>
       (let self_logical_rank = rankWithoutBatchDim self self_bdim;
            max_logical_rank = max self_logical_rank (dim mask');
            self1 = maybePadToLogicalRank self0 (Some 0) max_logical_rank
        in
        case masked_select self1 mask' s of
          (Inl e, s') \<Rightarrow> (Inl e, s')
        | (Inr selected, s') \<Rightarrow>
            (case view_rows selected batch_size of
               Inl e \<Rightarrow> (Inl e, s')
             | Inr result \<Rightarrow> (Inr (result, Some 0), s')))))"

section \<open>The gradient of the distance matrix\<close>

text \<open>
  Modelled from the spec: \<^verbatim>\<open>ensure_has_bdim\<close> of BatchRulesHelper, which is not
  among the sources. Sections 4.6 and 6: a tensor without a batch dim is
  broadcast-expanded along a new leading axis of the batch size.
\<close>

definition ensure_has_bdim :: "'a Tensor \<Rightarrow> bool \<Rightarrow> int \<Rightarrow> 'a Tensor" where
  "ensure_has_bdim t has_bdim batch_size =
     (if has_bdim then t else expand_front t batch_size)"

text \<open>\<^verbatim>\<open>tensor.contiguous()\<close> changes the layout in memory only, which the model does
  not have.\<close>

definition contiguous :: "'a Tensor \<Rightarrow> 'a Tensor" where
  "contiguous t = t"

text \<open>
  \<^verbatim>\<open>cdist_backward_batch_rule\<close>. \<open>cdist_backward\<close> is the runtime's
  \<^verbatim>\<open>at::_cdist_backward\<close>. \<^verbatim>\<open>get_bdim_size2\<close> of BatchRulesHelper is not among the
  sources and the specification does not describe it: it is a parameter.
\<close>

definition cdist_backward_batch_rule ::
  "'a Runtime \<Rightarrow> ('a Tensor \<Rightarrow> int option \<Rightarrow> 'a Tensor \<Rightarrow> int option \<Rightarrow> error + int)
     \<Rightarrow> ('a Tensor \<Rightarrow> 'a Tensor \<Rightarrow> 'a Tensor \<Rightarrow> 'p \<Rightarrow> 'a Tensor \<Rightarrow> ('s, 'r) kernel)
     \<Rightarrow> 'a Tensor \<Rightarrow> int option \<Rightarrow> 'a Tensor \<Rightarrow> int option \<Rightarrow> 'a Tensor \<Rightarrow> int option
     \<Rightarrow> 'p \<Rightarrow> 'a Tensor \<Rightarrow> int option
     \<Rightarrow> ('s, 'r \<times> int option) kernel" where
  "cdist_backward_batch_rule R get_bdim_size2 cdist_backward
       grad grad_bdim x1 x1_bdim x2 x2_bdim p cdist cdist_bdim s =
     (case (case cdist_bdim of
              Some cd \<Rightarrow>
                (if x1_bdim = None then
                   (case size_at cdist cd of
                      Inl e \<Rightarrow> Inl e
                    | Inr bs \<Rightarrow> Inr (contiguous (ensure_has_bdim x1 False bs), Some 0))
                 else Inr (x1, x1_bdim))
            | None \<Rightarrow> Inr (x1, x1_bdim)) of
        Inl e \<Rightarrow> (Inl e, s)
      | Inr (x1a, x1_bdim') \<Rightarrow>
      (case binary_pointwise_helper R x1a x1_bdim' x2 x2_bdim of
        Inl e \<Rightarrow> (Inl e, s)
      | Inr (x1b, x2b) \<Rightarrow>
      (case moveBatchDimToFront grad grad_bdim of
        Inl e \<Rightarrow> (Inl e, s)
      | Inr grad0 \<Rightarrow>
      (case (if (x1_bdim' \<noteq> None \<or> x2_bdim \<noteq> None) \<and> grad_bdim = None then
               (case get_bdim_size2 x1b (Some 0) x2b (Some 0) of
                  Inl e \<Rightarrow> Inl e
                | Inr bs \<Rightarrow> Inr (contiguous (ensure_has_bdim grad0 (grad_bdim \<noteq> None) bs)))
             else Inr grad0) of
        Inl e \<Rightarrow> (Inl e, s)
      | Inr grad1 \<Rightarrow>
      (case cdist_backward grad1 x1b x2b p cdist s of
        (Inl e, s') \<Rightarrow> (Inl e, s')
      | (Inr out, s') \<Rightarrow>
          (let out_bdim = (if x1_bdim' \<noteq> None \<or> x2_bdim \<noteq> None then Some 0 else None)
           in (Inr (out, out_bdim), s')))))))"

section \<open>The runtime operations the properties are evaluated with\<close>

text \<open>
  \<^verbatim>\<open>at::native::result_type\<close> of two tensors, neither a wrapped number. Among these
  dtypes promotion takes the later one in the order bool, uint8, int8, int16, int32,
  int64, float16, float32, float64, except that uint8 and int8 give int16. Tensors with
  axes decide the dtype over 0-d tensors, unless the 0-d tensor is of a higher category
  (bool, then integers, then floating point).
\<close>

definition isFloatingType :: "ScalarType \<Rightarrow> bool" where
  "isFloatingType d = (d = kHalf \<or> d = kFloat \<or> d = kDouble)"

fun type_order :: "ScalarType \<Rightarrow> nat" where
  "type_order kBool = 0"
| "type_order kByte = 1"
| "type_order kChar = 2"
| "type_order kShort = 3"
| "type_order kInt = 4"
| "type_order kLong = 5"
| "type_order kHalf = 6"
| "type_order kFloat = 7"
| "type_order kDouble = 8"

definition promoteTypes :: "ScalarType \<Rightarrow> ScalarType \<Rightarrow> ScalarType" where
  "promoteTypes a b =
     (if (a = kByte \<and> b = kChar) \<or> (a = kChar \<and> b = kByte) then kShort
      else if type_order b \<le> type_order a then a else b)"

definition combine_categories :: "ScalarType \<Rightarrow> ScalarType \<Rightarrow> ScalarType" where
  "combine_categories higher lower =
     (if isFloatingType higher then higher
      else if higher = kBool \<or> isFloatingType lower then promoteTypes higher lower
      else higher)"

definition aten_result_type :: "'a Tensor \<Rightarrow> 'a Tensor \<Rightarrow> ScalarType" where
  "aten_result_type a b =
     (if (0 < dim a) = (0 < dim b) then promoteTypes (scalar_type a) (scalar_type b)
      else if 0 < dim a then combine_categories (scalar_type a) (scalar_type b)
      else combine_categories (scalar_type b) (scalar_type a))"

text \<open>A runtime over integer elements; converting to bool is the one conversion that
  changes the small integers the examples use.\<close>

definition aten :: "int Runtime" where
  "aten = \<lparr>result_type = aten_result_type,
           convert = (\<lambda>d x. if d = kBool then (if x = 0 then 0 else 1) else x)\<rparr>"

text \<open>
  Broadcasting of two shapes (\<^verbatim>\<open>at::infer_size\<close>): the shorter one is filled with
  leading 1s, and two sizes go together when they are equal or one of them is 1.
\<close>

definition pad_left :: "nat \<Rightarrow> int list \<Rightarrow> int list" where
  "pad_left n xs = replicate (n - length xs) 1 @ xs"

definition infer_size :: "int list \<Rightarrow> int list \<Rightarrow> error + int list" where
  "infer_size a b =
     (let n = max (length a) (length b); a' = pad_left n a; b' = pad_left n b in
      if list_all2 (\<lambda>x y. x = y \<or> x = 1 \<or> y = 1) a' b'
      then Inr (map2 (\<lambda>x y. if x = 1 then y else x) a' b')
      else Inl RuntimeError)"

text \<open>The index into a tensor of sizes \<open>sz\<close> that an index into its broadcast reads:
  leading axes the tensor does not have are dropped, an axis of size 1 is read at 0.\<close>

definition broadcast_index :: "int list \<Rightarrow> int list \<Rightarrow> int list" where
  "broadcast_index sz idx =
     map2 (\<lambda>n i. if n = 1 then 0 else i) sz (drop (length idx - length sz) idx)"

text \<open>All indices of a shape, in row-major order.\<close>

fun indices :: "int list \<Rightarrow> int list list" where
  "indices [] = [[]]"
| "indices (n # ns) = concat (map (\<lambda>i. map ((#) i) (indices ns)) [0..n - 1])"

text \<open>
  \<^verbatim>\<open>at::masked_select(self, mask)\<close>: the mask is boolean (uint8 is still accepted);
  input and mask are broadcast against each other, and the result is the 1-d tensor of the
  elements of the input where the mask is true, in row-major order. It changes no state.
\<close>

definition masked_select_indices :: "bool Tensor \<Rightarrow> int list \<Rightarrow> int list list" where
  "masked_select_indices mask' shape =
     filter (\<lambda>idx. elems mask' (broadcast_index (sizes mask') idx)) (indices shape)"

definition at_masked_select :: "'a Tensor \<Rightarrow> bool Tensor \<Rightarrow> ('s, 'a Tensor) kernel" where
  "at_masked_select self mask' s =
     (if scalar_type mask' \<noteq> kBool \<and> scalar_type mask' \<noteq> kByte then (Inl RuntimeError, s)
      else
       case infer_size (sizes self) (sizes mask') of
         Inl e \<Rightarrow> (Inl e, s)
       | Inr shape \<Rightarrow>
           (let vals = map (\<lambda>idx. elems self (broadcast_index (sizes self) idx))
                         (masked_select_indices mask' shape)
            in (Inr \<lparr>sizes = [int (length vals)], scalar_type = scalar_type self,
                     elems = (\<lambda>idx. vals ! nat (idx ! 0))\<rparr>, s)))"

text \<open>The number of true entries of a mask, and of a mask broadcast to a shape.\<close>

definition count_true :: "bool Tensor \<Rightarrow> int" where
  "count_true mask' = int (length (filter (elems mask') (indices (sizes mask'))))"

definition count_true_broadcast :: "bool Tensor \<Rightarrow> int list \<Rightarrow> int" where
  "count_true_broadcast mask' shape = int (length (masked_select_indices mask' shape))"

section \<open>Notions the properties are stated with\<close>

text \<open>A batch dim is well-formed when it names a physical axis of its tensor (section 3).\<close>

definition valid_bdim :: "'a Tensor \<Rightarrow> int option \<Rightarrow> bool" where
  "valid_bdim t bdim = (case bdim of None \<Rightarrow> True | Some d \<Rightarrow> 0 \<le> d \<and> d < dim t)"

text \<open>A logical scalar: a batched operand of logical rank 0 (lines 36 and 37 of the source).\<close>

definition is_logical_scalar :: "'a Tensor \<Rightarrow> int option \<Rightarrow> bool" where
  "is_logical_scalar t bdim = (rankWithoutBatchDim t bdim = 0 \<and> bdim \<noteq> None)"

text \<open>The sizes of an operand once its batch dim, if it has one, is at the front.\<close>

definition moved_sizes :: "'a Tensor \<Rightarrow> int option \<Rightarrow> int list" where
  "moved_sizes t bdim =
     (case bdim of
        None \<Rightarrow> sizes t
      | Some d \<Rightarrow> (sizes t ! nat d) # (take (nat d) (sizes t) @ drop (Suc (nat d)) (sizes t)))"

text \<open>The operands of the example scenario of section 8, and operands for the scalar
  promotion: one int64 scalar per batch slot over a batch of 4 and over an empty batch,
  and a float32 vector.\<close>

definition example_A :: "int Tensor" where
  "example_A = \<lparr>sizes = [4, 3], scalar_type = kFloat, elems = (\<lambda>idx. 0)\<rparr>"

definition example_B :: "int Tensor" where
  "example_B = \<lparr>sizes = [2, 5, 3], scalar_type = kFloat, elems = (\<lambda>idx. 0)\<rparr>"

definition long_scalars :: "int Tensor" where
  "long_scalars = \<lparr>sizes = [4], scalar_type = kLong, elems = (\<lambda>idx. 7)\<rparr>"

definition no_scalars :: "int Tensor" where
  "no_scalars = \<lparr>sizes = [0], scalar_type = kLong, elems = (\<lambda>idx. 7)\<rparr>"

definition float_vector :: "int Tensor" where
  "float_vector = \<lparr>sizes = [3], scalar_type = kFloat, elems = (\<lambda>idx. 1)\<rparr>"

text \<open>Operations that report the sizes and dtypes of the operands they are called with,
  without and with a further argument; the state counts the calls.\<close>

definition observe :: "'a Tensor \<Rightarrow> 'a Tensor \<Rightarrow> (nat, (int list \<times> ScalarType) \<times> (int list \<times> ScalarType)) kernel" where
  "observe a b s = (Inr ((sizes a, scalar_type a), (sizes b, scalar_type b)), Suc s)"

definition observe_extra ::
  "'a Tensor \<Rightarrow> 'a Tensor \<Rightarrow> unit \<Rightarrow> (nat, (int list \<times> ScalarType) \<times> (int list \<times> ScalarType)) kernel" where
  "observe_extra a b extra_args s = observe a b s"

text \<open>A caller-visible operand given as the physical tensor and batch dim that
  unwrapping yields, and a dynamic layer of level 1 over a batch of 4.\<close>

definition unwrap_given :: "'a Tensor \<times> int option \<Rightarrow> int \<Rightarrow> 'a Tensor \<times> int option" where
  "unwrap_given v lvl = v"

definition layer_with :: "RandomnessType \<Rightarrow> DynamicLayer" where
  "layer_with r = \<lparr>layerId = 1, randomness = r, batchSize = 4\<rparr>"

text \<open>Operands of a distance matrix of 2 points against 5 points in 3 dimensions: the
  gradient seed over a batch of 4 and unbatched, and the first input over a batch of 4 as
  well. \<open>observe_cdist\<close> reports the sizes of the first three operands it is called
  with; \<open>first_bdim_size\<close> stands in for \<^verbatim>\<open>get_bdim_size2\<close> and gives the size of
  the first batch dim it is given.\<close>

definition dist_x1 :: "int Tensor" where
  "dist_x1 = \<lparr>sizes = [2, 3], scalar_type = kFloat, elems = (\<lambda>idx. 0)\<rparr>"

definition dist_x1_batched :: "int Tensor" where
  "dist_x1_batched = \<lparr>sizes = [4, 2, 3], scalar_type = kFloat, elems = (\<lambda>idx. 0)\<rparr>"

definition dist_x2 :: "int Tensor" where
  "dist_x2 = \<lparr>sizes = [5, 3], scalar_type = kFloat, elems = (\<lambda>idx. 0)\<rparr>"

definition dist_cdist :: "int Tensor" where
  "dist_cdist = \<lparr>sizes = [2, 5], scalar_type = kFloat, elems = (\<lambda>idx. 0)\<rparr>"

definition dist_grad :: "int Tensor" where
  "dist_grad = \<lparr>sizes = [2, 5], scalar_type = kFloat, elems = (\<lambda>idx. 1)\<rparr>"

definition dist_grad_batched :: "int Tensor" where
  "dist_grad_batched = \<lparr>sizes = [4, 2, 5], scalar_type = kFloat, elems = (\<lambda>idx. 1)\<rparr>"

definition observe_cdist ::
  "'a Tensor \<Rightarrow> 'a Tensor \<Rightarrow> 'a Tensor \<Rightarrow> unit \<Rightarrow> 'a Tensor
     \<Rightarrow> (nat, int list \<times> int list \<times> int list) kernel" where
  "observe_cdist grad x1 x2 p cdist s = (Inr (sizes grad, sizes x1, sizes x2), Suc s)"

definition first_bdim_size ::
  "'a Tensor \<Rightarrow> int option \<Rightarrow> 'a Tensor \<Rightarrow> int option \<Rightarrow> error + int" where
  "first_bdim_size a a_bdim b b_bdim =
     (case a_bdim of
        Some d \<Rightarrow> size_at a d
      | None \<Rightarrow> (case b_bdim of Some d \<Rightarrow> size_at b d | None \<Rightarrow> Inl RuntimeError))"

text \<open>The logical sizes of an operand: its sizes without the batch axis.\<close>

definition logical_sizes :: "'a Tensor \<Rightarrow> int option \<Rightarrow> int list" where
  "logical_sizes t bdim =
     (case bdim of
        None \<Rightarrow> sizes t
      | Some d \<Rightarrow> take (nat d) (sizes t) @ drop (Suc (nat d)) (sizes t))"

text \<open>Operands for select-by-mask: a batch of 2 vectors of 3 elements, a mask over the
  3 elements that is true at the first and the last, and a mask of one true entry that
  broadcasting stretches over the vector.\<close>

definition select_self :: "int Tensor" where
  "select_self = \<lparr>sizes = [2, 3], scalar_type = kLong, elems = (\<lambda>idx. 10 * (idx ! 0) + idx ! 1)\<rparr>"

definition mask_two_of_three :: "bool Tensor" where
  "mask_two_of_three = \<lparr>sizes = [3], scalar_type = kBool, elems = (\<lambda>idx. idx \<noteq> [1])\<rparr>"

definition mask_one_true :: "bool Tensor" where
  "mask_one_true = \<lparr>sizes = [1], scalar_type = kBool, elems = (\<lambda>idx. True)\<rparr>"

text \<open>What a caller sees of the outcome of a rule that returns a tensor: the error, or
  the sizes and the batch dim of the result.\<close>

definition result_sizes :: "(error + 'a Tensor \<times> int option) \<times> 's \<Rightarrow> error + int list \<times> int option" where
  "result_sizes outcome =
     (case fst outcome of Inl e \<Rightarrow> Inl e | Inr (t, bdim) \<Rightarrow> Inr (sizes t, bdim))"

text \<open>A mutating method that records, in the state, the sizes and dtypes of the operands
  of each call.\<close>

definition record_call ::
  "'a Tensor \<Rightarrow> 'a Tensor \<Rightarrow> unit
     \<Rightarrow> (((int list \<times> ScalarType) \<times> (int list \<times> ScalarType)) list, unit) kernel" where
  "record_call a b extra_args s =
     (Inr (), s @ [((sizes a, scalar_type a), (sizes b, scalar_type b))])"

text \<open>Further operands for select-by-mask: a 0-d \<open>self\<close>, a uint8 mask over a batch of
  2, and the runtime's operation with the state counting its calls.\<close>

definition scalar_self :: "int Tensor" where
  "scalar_self = \<lparr>sizes = [], scalar_type = kLong, elems = (\<lambda>idx. 5)\<rparr>"

definition byte_mask_batched :: "bool Tensor" where
  "byte_mask_batched = \<lparr>sizes = [2, 3], scalar_type = kByte, elems = (\<lambda>idx. True)\<rparr>"

definition counted_masked_select :: "'a Tensor \<Rightarrow> bool Tensor \<Rightarrow> (nat, 'a Tensor) kernel" where
  "counted_masked_select self mask' s = (fst (at_masked_select self mask' s), Suc s)"

section \<open>Properties of the alignment\<close>

lemma move_Inr_iff: "(\<exists>t0. moveBatchDimToFront t bd = Inr t0) \<longleftrightarrow> valid_bdim t bd"
  by (auto simp: moveBatchDimToFront_def movedim_front_def valid_bdim_def split: option.splits)

lemma move_sizes: "moveBatchDimToFront t bd = Inr t0 \<Longrightarrow> sizes t0 = moved_sizes t bd"
  by (auto simp: moveBatchDimToFront_def movedim_front_def moved_sizes_def split: option.splits if_splits)

lemma move_scalar_type: "moveBatchDimToFront t bd = Inr t0 \<Longrightarrow> scalar_type t0 = scalar_type t"
  by (auto simp: moveBatchDimToFront_def movedim_front_def split: option.splits if_splits)

lemma move_dim: "moveBatchDimToFront t bd = Inr t0 \<Longrightarrow> dim t0 = dim t"
  by (auto simp: moveBatchDimToFront_def movedim_front_def dim_def split: option.splits if_splits)

lemma move_None: "moveBatchDimToFront t None = Inr t"
  by (simp add: moveBatchDimToFront_def)

lemma promo_sizes:
  "handleScalarTypePromotion R x y = Inr (x', y') \<Longrightarrow> sizes x' = sizes x \<and> sizes y' = sizes y"
  by (auto simp: handleScalarTypePromotion_def to_def Let_def split: sum.splits if_splits)

lemma helper_no_promotion:
  "is_logical_scalar a ba = is_logical_scalar b bb \<Longrightarrow>
   binary_pointwise_helper R a ba b bb =
     (case moveBatchDimToFront a ba of Inl e \<Rightarrow> Inl e | Inr a0 \<Rightarrow>
      (case moveBatchDimToFront b bb of Inl e \<Rightarrow> Inl e | Inr b0 \<Rightarrow>
        Inr (maybePadToLogicalRank a0 ba (max (rankWithoutBatchDim a ba) (rankWithoutBatchDim b bb)),
             maybePadToLogicalRank b0 bb (max (rankWithoutBatchDim a ba) (rankWithoutBatchDim b bb)))))"
  by (auto simp: binary_pointwise_helper_def is_logical_scalar_def Let_def split: sum.splits)

lemma helper_promote_first:
  "is_logical_scalar a ba \<Longrightarrow> \<not> is_logical_scalar b bb \<Longrightarrow>
   binary_pointwise_helper R a ba b bb =
     (case moveBatchDimToFront a ba of Inl e \<Rightarrow> Inl e | Inr a0 \<Rightarrow>
      (case moveBatchDimToFront b bb of Inl e \<Rightarrow> Inl e | Inr b0 \<Rightarrow>
       (case handleScalarTypePromotion R a0 b0 of Inl e \<Rightarrow> Inl e | Inr (a1, b1) \<Rightarrow>
        Inr (maybePadToLogicalRank a1 ba (max (rankWithoutBatchDim a ba) (rankWithoutBatchDim b bb)),
             maybePadToLogicalRank b1 bb (max (rankWithoutBatchDim a ba) (rankWithoutBatchDim b bb))))))"
  by (auto simp: binary_pointwise_helper_def is_logical_scalar_def Let_def split: sum.splits)

lemma helper_promote_second:
  "is_logical_scalar b bb \<Longrightarrow> \<not> is_logical_scalar a ba \<Longrightarrow>
   binary_pointwise_helper R a ba b bb =
     (case moveBatchDimToFront a ba of Inl e \<Rightarrow> Inl e | Inr a0 \<Rightarrow>
      (case moveBatchDimToFront b bb of Inl e \<Rightarrow> Inl e | Inr b0 \<Rightarrow>
       (case handleScalarTypePromotion R b0 a0 of Inl e \<Rightarrow> Inl e | Inr (b1, a1) \<Rightarrow>
        Inr (maybePadToLogicalRank a1 ba (max (rankWithoutBatchDim a ba) (rankWithoutBatchDim b bb)),
             maybePadToLogicalRank b1 bb (max (rankWithoutBatchDim a ba) (rankWithoutBatchDim b bb))))))"
  by (auto simp: binary_pointwise_helper_def is_logical_scalar_def Let_def split: sum.splits)

text \<open>Whatever branch the alignment takes, the aligned operand is the padded form of a
  tensor with the sizes of the moved operand.\<close>

lemma helper_shape:
  assumes "binary_pointwise_helper R a ba b bb = Inr (a', b')"
  shows "\<exists>a1 b1. sizes a1 = moved_sizes a ba \<and> sizes b1 = moved_sizes b bb
           \<and> a' = maybePadToLogicalRank a1 ba (max (rankWithoutBatchDim a ba) (rankWithoutBatchDim b bb))
           \<and> b' = maybePadToLogicalRank b1 bb (max (rankWithoutBatchDim a ba) (rankWithoutBatchDim b bb))"
proof -
  consider (none) "is_logical_scalar a ba = is_logical_scalar b bb"
    | (first) "is_logical_scalar a ba" "\<not> is_logical_scalar b bb"
    | (second) "is_logical_scalar b bb" "\<not> is_logical_scalar a ba"
    by blast
  then show ?thesis
  proof cases
    case none
    from assms show ?thesis
      unfolding helper_no_promotion [OF none]
      by (auto split: sum.splits dest: move_sizes)
  next
    case first
    from assms show ?thesis
      unfolding helper_promote_first [OF first]
      by (auto split: sum.splits dest!: move_sizes promo_sizes) metis
  next
    case second
    from assms show ?thesis
      unfolding helper_promote_second [OF second]
      by (auto split: sum.splits dest!: move_sizes promo_sizes) metis
  qed
qed

text \<open>
  C2. If the alignment returns, an operand without a batch dim keeps its sizes; an operand
  with a batch dim whose logical rank is not below the other's has the sizes of the moved
  operand, unpadded; an operand with a batch dim and the lower logical rank has size-1
  axes, as many as the ranks differ by, right after its batch axis; and without any batch
  dim the alignment returns both operands as they are. The example of section 8 is the
  instance that follows the theorem.
\<close>

theorem alignment_pads_lower_rank_only:
  assumes "binary_pointwise_helper R a ba b bb = Inr (a', b')"
  shows "(ba = None \<longrightarrow> sizes a' = sizes a)
       \<and> (bb = None \<longrightarrow> sizes b' = sizes b)
       \<and> (ba \<noteq> None \<longrightarrow> rankWithoutBatchDim b bb \<le> rankWithoutBatchDim a ba
            \<longrightarrow> sizes a' = moved_sizes a ba)
       \<and> (bb \<noteq> None \<longrightarrow> rankWithoutBatchDim a ba \<le> rankWithoutBatchDim b bb
            \<longrightarrow> sizes b' = moved_sizes b bb)
       \<and> (ba \<noteq> None \<longrightarrow> rankWithoutBatchDim a ba < rankWithoutBatchDim b bb
            \<longrightarrow> sizes a' = take 1 (moved_sizes a ba)
                   @ replicate (nat (rankWithoutBatchDim b bb - rankWithoutBatchDim a ba)) 1
                   @ drop 1 (moved_sizes a ba))
       \<and> (bb \<noteq> None \<longrightarrow> rankWithoutBatchDim b bb < rankWithoutBatchDim a ba
            \<longrightarrow> sizes b' = take 1 (moved_sizes b bb)
                   @ replicate (nat (rankWithoutBatchDim a ba - rankWithoutBatchDim b bb)) 1
                   @ drop 1 (moved_sizes b bb))
       \<and> binary_pointwise_helper R a None b None = Inr (a, b)"
proof -
  let ?ra = "rankWithoutBatchDim a ba" and ?rb = "rankWithoutBatchDim b bb"
  from helper_shape [OF assms] obtain a1 b1 where
    a1: "sizes a1 = moved_sizes a ba" and b1: "sizes b1 = moved_sizes b bb"
    and a': "a' = maybePadToLogicalRank a1 ba (max ?ra ?rb)"
    and b': "b' = maybePadToLogicalRank b1 bb (max ?ra ?rb)"
    by blast
  have len: "length (moved_sizes t bd) = length (sizes t)" if "valid_bdim t bd" for t :: "'a Tensor" and bd
    using that by (auto simp: moved_sizes_def valid_bdim_def dim_def split: option.splits)
  have va: "valid_bdim a ba" and vb: "valid_bdim b bb"
    using assms move_Inr_iff [of a ba] move_Inr_iff [of b bb]
    by (auto simp: binary_pointwise_helper_def Let_def split: sum.splits)
  have ra: "rankWithoutBatchDim a1 ba = ?ra" and rb: "rankWithoutBatchDim b1 bb = ?rb"
    using a1 b1 len [OF va] len [OF vb] by (simp_all add: rankWithoutBatchDim_def dim_def)
  have none: "binary_pointwise_helper R a None b None = Inr (a, b)"
    by (simp add: binary_pointwise_helper_def moveBatchDimToFront_def maybePadToLogicalRank_def
        Let_def)
  show ?thesis
    using a1 b1 ra rb none unfolding a' b'
    by (cases ba; cases bb) (simp_all add: maybePadToLogicalRank_def view_pad_def Let_def moved_sizes_def)
qed

theorem alignment_pads_lower_rank_only_witness:
  "\<exists>a' b'. binary_pointwise_helper aten example_A (Some 0) example_B None = Inr (a', b')
     \<and> sizes a' = [4, 1, 1, 3] \<and> sizes b' = [2, 5, 3]"
proof -
  obtain a' b' where h: "binary_pointwise_helper aten example_A (Some 0) example_B None = Inr (a', b')"
    by (simp add: binary_pointwise_helper_def moveBatchDimToFront_def movedim_front_def
        rankWithoutBatchDim_def dim_def example_A_def example_B_def Let_def)
  from alignment_pads_lower_rank_only [OF h] have "sizes a' = [4, 1, 1, 3]" "sizes b' = [2, 5, 3]"
    by (simp_all add: moved_sizes_def rankWithoutBatchDim_def dim_def example_A_def example_B_def
        eval_nat_numeral)
  with h show ?thesis by blast
qed

lemma promo_result:
  "handleScalarTypePromotion R x y =
     (case select_first x of
        Inl e \<Rightarrow> Inl e
      | Inr slot \<Rightarrow>
          Inr (if scalar_type x \<noteq> result_type R slot y then to R x (result_type R slot y) else x,
               if scalar_type y \<noteq> result_type R slot y then to R y (result_type R slot y) else y))"
  by (simp add: handleScalarTypePromotion_def Let_def split: sum.splits)

lemma pad_scalar_type: "scalar_type (maybePadToLogicalRank t bd r) = scalar_type t"
  by (simp add: maybePadToLogicalRank_def view_pad_def Let_def split: option.splits)

lemma select_first_slot:
  "select_first t = Inr slot \<Longrightarrow> sizes slot = drop 1 (sizes t) \<and> scalar_type slot = scalar_type t"
  by (auto simp: select_first_def split: list.splits if_splits)

text \<open>
  C3. Exactly when one operand is a logical scalar and the other is not, both aligned
  operands have the dtype the runtime's \<open>result_type\<close> gives for the first batch slot of
  the logical scalar (a 0-d tensor of the logical scalar's dtype) and the other operand;
  when both or neither is a logical scalar the aligned operands are the moved and padded
  operands, with the dtypes they came with. \<open>R\<close> is any runtime, so this holds for every
  pair of dtypes.
\<close>

theorem scalar_promotion_iff_one_logical_scalar:
  assumes "binary_pointwise_helper R a ba b bb = Inr (a', b')"
    and "moveBatchDimToFront a ba = Inr a0" and "moveBatchDimToFront b bb = Inr b0"
  shows "(is_logical_scalar a ba \<and> \<not> is_logical_scalar b bb \<longrightarrow>
            (\<exists>slot. select_first a0 = Inr slot \<and> sizes slot = [] \<and> scalar_type slot = scalar_type a
               \<and> scalar_type a' = result_type R slot b0 \<and> scalar_type b' = result_type R slot b0))
       \<and> (is_logical_scalar b bb \<and> \<not> is_logical_scalar a ba \<longrightarrow>
            (\<exists>slot. select_first b0 = Inr slot \<and> sizes slot = [] \<and> scalar_type slot = scalar_type b
               \<and> scalar_type a' = result_type R slot a0 \<and> scalar_type b' = result_type R slot a0))
       \<and> (is_logical_scalar a ba = is_logical_scalar b bb \<longrightarrow>
            a' = maybePadToLogicalRank a0 ba (max (rankWithoutBatchDim a ba) (rankWithoutBatchDim b bb))
          \<and> b' = maybePadToLogicalRank b0 bb (max (rankWithoutBatchDim a ba) (rankWithoutBatchDim b bb))
          \<and> scalar_type a' = scalar_type a \<and> scalar_type b' = scalar_type b)"
proof (intro conjI impI)
  assume ls: "is_logical_scalar a ba \<and> \<not> is_logical_scalar b bb"
  then have one: "length (sizes a0) = 1"
    using move_dim [OF assms(2)] by (auto simp: is_logical_scalar_def rankWithoutBatchDim_def dim_def)
  from ls assms obtain slot where s: "select_first a0 = Inr slot"
    by (auto simp: helper_promote_first promo_result split: sum.splits)
  with ls assms have "scalar_type a' = result_type R slot b0 \<and> scalar_type b' = result_type R slot b0"
    by (auto simp: helper_promote_first promo_result pad_scalar_type to_def)
  moreover have "sizes slot = []" "scalar_type slot = scalar_type a"
    using select_first_slot [OF s] one move_scalar_type [OF assms(2)] by simp_all
  ultimately show "\<exists>slot. select_first a0 = Inr slot \<and> sizes slot = [] \<and> scalar_type slot = scalar_type a
       \<and> scalar_type a' = result_type R slot b0 \<and> scalar_type b' = result_type R slot b0"
    using s by blast
next
  assume ls: "is_logical_scalar b bb \<and> \<not> is_logical_scalar a ba"
  then have one: "length (sizes b0) = 1"
    using move_dim [OF assms(3)] by (auto simp: is_logical_scalar_def rankWithoutBatchDim_def dim_def)
  from ls assms obtain slot where s: "select_first b0 = Inr slot"
    by (auto simp: helper_promote_second promo_result split: sum.splits)
  with ls assms have "scalar_type a' = result_type R slot a0 \<and> scalar_type b' = result_type R slot a0"
    by (auto simp: helper_promote_second promo_result pad_scalar_type to_def)
  moreover have "sizes slot = []" "scalar_type slot = scalar_type b"
    using select_first_slot [OF s] one move_scalar_type [OF assms(3)] by simp_all
  ultimately show "\<exists>slot. select_first b0 = Inr slot \<and> sizes slot = [] \<and> scalar_type slot = scalar_type b
       \<and> scalar_type a' = result_type R slot a0 \<and> scalar_type b' = result_type R slot a0"
    using s by blast
next
  assume eq: "is_logical_scalar a ba = is_logical_scalar b bb"
  from assms show "a' = maybePadToLogicalRank a0 ba (max (rankWithoutBatchDim a ba) (rankWithoutBatchDim b bb))"
    and "b' = maybePadToLogicalRank b0 bb (max (rankWithoutBatchDim a ba) (rankWithoutBatchDim b bb))"
    by (simp_all add: helper_no_promotion [OF eq])
  then show "scalar_type a' = scalar_type a" and "scalar_type b' = scalar_type b"
    using move_scalar_type [OF assms(2)] move_scalar_type [OF assms(3)]
    by (simp_all add: pad_scalar_type)
qed


theorem scalar_promotion_iff_one_logical_scalar_witness:
  "\<exists>a' b'. binary_pointwise_helper aten long_scalars (Some 0) float_vector None = Inr (a', b')
     \<and> is_logical_scalar long_scalars (Some 0) \<and> \<not> is_logical_scalar float_vector None
     \<and> scalar_type long_scalars = kLong \<and> scalar_type a' = kFloat \<and> scalar_type b' = kFloat"
proof -
  have ma: "moveBatchDimToFront long_scalars (Some 0) = Inr long_scalars"
    by (simp add: moveBatchDimToFront_def movedim_front_def dim_def long_scalars_def)
  have mb: "moveBatchDimToFront float_vector None = Inr float_vector"
    by (simp add: moveBatchDimToFront_def)
  have ls: "is_logical_scalar long_scalars (Some 0) \<and> \<not> is_logical_scalar float_vector None"
    by (simp add: is_logical_scalar_def rankWithoutBatchDim_def dim_def long_scalars_def)
  obtain a' b' where
    h: "binary_pointwise_helper aten long_scalars (Some 0) float_vector None = Inr (a', b')"
  proof -
    have "\<exists>slot. select_first long_scalars = Inr slot"
      by (simp add: select_first_def long_scalars_def)
    then show ?thesis
      using ls that by (auto simp: helper_promote_first ma mb promo_result)
  qed
  from scalar_promotion_iff_one_logical_scalar [OF h ma mb] ls obtain slot where
    "sizes slot = []" "scalar_type slot = scalar_type long_scalars"
    "scalar_type a' = result_type aten slot float_vector"
    "scalar_type b' = result_type aten slot float_vector"
    by blast
  then have "scalar_type a' = kFloat \<and> scalar_type b' = kFloat"
    by (simp add: aten_def aten_result_type_def dim_def combine_categories_def isFloatingType_def
        float_vector_def long_scalars_def)
  with h ls show ?thesis by (auto simp: long_scalars_def)
qed

lemma logical_scalar_moved:
  assumes "is_logical_scalar t bd" and "valid_bdim t bd"
  shows "moveBatchDimToFront t bd = Inr t0 \<Longrightarrow> sizes t0 = [hd (sizes t)]" and "sizes t = [hd (sizes t)]"
proof -
  from assms obtain d where d: "bd = Some d" "length (sizes t) = 1" "d = 0"
    by (auto simp: is_logical_scalar_def valid_bdim_def rankWithoutBatchDim_def dim_def)
  then obtain n where n: "sizes t = [n]" by (cases "sizes t") auto
  then show "sizes t = [hd (sizes t)]" by simp
  show "sizes t0 = [hd (sizes t)]" if "moveBatchDimToFront t bd = Inr t0"
    using move_sizes [OF that] d n by (simp add: moved_sizes_def)
qed

lemma select_first_Inr_iff:
  "(\<exists>slot. select_first t = Inr slot) \<longleftrightarrow> (sizes t \<noteq> [] \<and> 0 < hd (sizes t))"
  by (auto simp: select_first_def split: list.splits)

lemma select_first_Inl: "select_first t = Inl e \<Longrightarrow> e = IndexError"
  by (auto simp: select_first_def split: list.splits if_splits)

lemma promo_Inr_iff:
  "(\<exists>x' y'. handleScalarTypePromotion R x y = Inr (x', y')) \<longleftrightarrow> (sizes x \<noteq> [] \<and> 0 < hd (sizes x))"
  unfolding select_first_Inr_iff [symmetric]
  by (auto simp: promo_result split: sum.splits)

lemma promo_Inl:
  "\<not> (sizes x \<noteq> [] \<and> 0 < hd (sizes x)) \<Longrightarrow> handleScalarTypePromotion R x y = Inl IndexError"
  using select_first_Inr_iff [of x] select_first_Inl [of x]
  by (cases "select_first x") (auto simp: promo_result)

text \<open>With well-formed batch dims the alignment returns unless the promotion step runs
  on a logical scalar whose batch is empty.\<close>

lemma helper_returns_iff:
  assumes "valid_bdim a ba" and "valid_bdim b bb"
  shows "(\<exists>a' b'. binary_pointwise_helper R a ba b bb = Inr (a', b')) \<longleftrightarrow>
         (is_logical_scalar a ba \<noteq> is_logical_scalar b bb \<longrightarrow>
            0 < hd (sizes (if is_logical_scalar a ba then a else b)))"
proof -
  from assms obtain a0 b0 where m: "moveBatchDimToFront a ba = Inr a0" "moveBatchDimToFront b bb = Inr b0"
    using move_Inr_iff by blast
  consider (none) "is_logical_scalar a ba = is_logical_scalar b bb"
    | (first) "is_logical_scalar a ba" "\<not> is_logical_scalar b bb"
    | (second) "is_logical_scalar b bb" "\<not> is_logical_scalar a ba"
    by blast
  then show ?thesis
  proof cases
    case none
    then show ?thesis by (simp add: helper_no_promotion m)
  next
    case first
    have "(\<exists>a' b'. binary_pointwise_helper R a ba b bb = Inr (a', b')) \<longleftrightarrow> (\<exists>x' y'. handleScalarTypePromotion R a0 b0 = Inr (x', y'))"
      by (auto simp: helper_promote_first [OF first] m split: sum.splits)
    then show ?thesis
      using first logical_scalar_moved(1) [OF first(1) assms(1) m(1)] by (simp add: promo_Inr_iff)
  next
    case second
    have "(\<exists>a' b'. binary_pointwise_helper R a ba b bb = Inr (a', b')) \<longleftrightarrow> (\<exists>x' y'. handleScalarTypePromotion R b0 a0 = Inr (x', y'))"
      by (auto simp: helper_promote_second [OF second] m split: sum.splits)
    then show ?thesis
      using second logical_scalar_moved(1) [OF second(1) assms(2) m(2)] by (simp add: promo_Inr_iff)
  qed
qed

lemma helper_empty_batch:
  assumes "valid_bdim a ba" and "valid_bdim b bb"
    and "is_logical_scalar a ba \<noteq> is_logical_scalar b bb"
    and "hd (sizes (if is_logical_scalar a ba then a else b)) \<le> 0"
  shows "binary_pointwise_helper R a ba b bb = Inl IndexError"
proof -
  from assms obtain a0 b0 where m: "moveBatchDimToFront a ba = Inr a0" "moveBatchDimToFront b bb = Inr b0"
    using move_Inr_iff by blast
  show ?thesis
  proof (cases "is_logical_scalar a ba")
    case True
    with assms(3) have nb: "\<not> is_logical_scalar b bb" by simp
    have "handleScalarTypePromotion R a0 b0 = Inl IndexError"
      using assms(4) True logical_scalar_moved(1) [OF True assms(1) m(1)] by (intro promo_Inl) simp
    then show ?thesis by (simp add: helper_promote_first [OF True nb] m)
  next
    case False
    with assms(3) have lb: "is_logical_scalar b bb" by simp
    have "handleScalarTypePromotion R b0 a0 = Inl IndexError"
      using assms(4) False logical_scalar_moved(1) [OF lb assms(2) m(2)] by (intro promo_Inl) simp
    then show ?thesis by (simp add: helper_promote_second [OF lb False] m)
  qed
qed

text \<open>
  C9. The promotion step returns only if the tensor it is given has a first slot along
  axis 0. In the alignment the step runs on the logical scalar, moved to the front: its
  only axis is the batch axis, the alignment returns exactly when the batch is not empty,
  and with an empty batch it raises the runtime's index error.
\<close>

theorem scalar_promotion_needs_nonempty_batch:
  assumes "valid_bdim a ba" and "valid_bdim b bb"
    and "is_logical_scalar a ba \<noteq> is_logical_scalar b bb"
  shows "(let ls = (if is_logical_scalar a ba then a else b) in
            sizes ls = [hd (sizes ls)]
          \<and> ((\<exists>a' b'. binary_pointwise_helper R a ba b bb = Inr (a', b')) \<longleftrightarrow> 0 < hd (sizes ls))
          \<and> (hd (sizes ls) \<le> 0 \<longrightarrow> binary_pointwise_helper R a ba b bb = Inl IndexError))
       \<and> ((\<exists>a' b'. handleScalarTypePromotion R a b = Inr (a', b')) \<longleftrightarrow> (sizes a \<noteq> [] \<and> 0 < hd (sizes a)))"
proof -
  have "sizes (if is_logical_scalar a ba then a else b) = [hd (sizes (if is_logical_scalar a ba then a else b))]"
    using assms logical_scalar_moved(2) [of a ba] logical_scalar_moved(2) [of b bb]
    by (cases "is_logical_scalar a ba") auto
  then show ?thesis
    using helper_returns_iff [OF assms(1,2), of R] helper_empty_batch [OF assms(1,2,3), of R] assms(3)
    by (simp add: Let_def promo_Inr_iff)
qed

theorem scalar_promotion_needs_nonempty_batch_witness:
  "valid_bdim no_scalars (Some 0) \<and> valid_bdim float_vector None
   \<and> is_logical_scalar no_scalars (Some 0) \<noteq> is_logical_scalar float_vector None
   \<and> sizes no_scalars = [0]
   \<and> binary_pointwise_helper aten no_scalars (Some 0) float_vector None = Inl IndexError"
proof -
  have v: "valid_bdim no_scalars (Some 0)" "valid_bdim float_vector None"
    by (simp_all add: valid_bdim_def dim_def no_scalars_def)
  have ls: "is_logical_scalar no_scalars (Some 0)" "\<not> is_logical_scalar float_vector None"
    by (simp_all add: is_logical_scalar_def rankWithoutBatchDim_def dim_def no_scalars_def)
  then have ne: "is_logical_scalar no_scalars (Some 0) \<noteq> is_logical_scalar float_vector None"
    by simp
  from scalar_promotion_needs_nonempty_batch [OF v ne, of aten] ls v show ?thesis
    by (simp add: Let_def no_scalars_def)
qed

section \<open>Properties of the pointwise and the comparison rule\<close>

text \<open>
  What the pointwise rule returns. With well-formed batch dims, and unless the promotion
  step has to index an empty batch, the alignment returns and the rule returns what
  \<open>Func'\<close> returns on the aligned operands and the further arguments, with batch dim 0,
  in the state \<open>Func'\<close> leaves; an error of \<open>Func'\<close> is passed on. Operands without
  any batch dim go to \<open>Func'\<close> as they are and the batch dim of the result is 0 all the
  same.
\<close>

theorem pointwise_rule_returns_func_of_aligned:
  assumes "valid_bdim a ba" and "valid_bdim b bb"
    and "is_logical_scalar a ba \<noteq> is_logical_scalar b bb \<longrightarrow>
           0 < hd (sizes (if is_logical_scalar a ba then a else b))"
  shows "(\<exists>a' b'. binary_pointwise_helper R a ba b bb = Inr (a', b')
            \<and> binary_pointwise_batch_rule R Func' a ba b bb extra_args s =
                (case Func' a' b' extra_args s of
                   (Inl e, s') \<Rightarrow> (Inl e, s')
                 | (Inr result, s') \<Rightarrow> (Inr (result, Some 0), s')))
       \<and> binary_pointwise_batch_rule R Func' a None b None extra_args s =
           (case Func' a b extra_args s of
              (Inl e, s') \<Rightarrow> (Inl e, s')
            | (Inr result, s') \<Rightarrow> (Inr (result, Some 0), s'))"
proof -
  from helper_returns_iff [OF assms(1,2), of R] assms(3) obtain a' b' where
    h: "binary_pointwise_helper R a ba b bb = Inr (a', b')" by blast
  have none: "binary_pointwise_helper R a None b None = Inr (a, b)"
    by (simp add: helper_no_promotion is_logical_scalar_def move_None maybePadToLogicalRank_def)
  show ?thesis
    using h by (simp add: binary_pointwise_batch_rule_def none)
qed

theorem pointwise_rule_returns_func_of_aligned_witness:
  "valid_bdim example_A (Some 0) \<and> valid_bdim example_B None
   \<and> binary_pointwise_batch_rule aten observe_extra example_A (Some 0) example_B None () 0 =
       (Inr ((([4, 1, 1, 3], kFloat), ([2, 5, 3], kFloat)), Some 0), 1)"
proof -
  have v: "valid_bdim example_A (Some 0)" "valid_bdim example_B None"
    by (simp_all add: valid_bdim_def dim_def example_A_def)
  have ls: "is_logical_scalar example_A (Some 0) = is_logical_scalar example_B None"
    by (simp add: is_logical_scalar_def rankWithoutBatchDim_def dim_def example_A_def)
  then have p: "is_logical_scalar example_A (Some 0) \<noteq> is_logical_scalar example_B None \<longrightarrow>
      0 < hd (sizes (if is_logical_scalar example_A (Some 0) then example_A else example_B))"
    by simp
  have m: "moveBatchDimToFront example_A (Some 0) = Inr example_A"
    by (simp add: moveBatchDimToFront_def movedim_front_def dim_def example_A_def)
  have h: "binary_pointwise_helper aten example_A (Some 0) example_B None =
      Inr (maybePadToLogicalRank example_A (Some 0) 3, example_B)"
    by (simp add: helper_no_promotion [OF ls] m move_None)
       (simp add: rankWithoutBatchDim_def dim_def example_A_def example_B_def maybePadToLogicalRank_def)
  from pointwise_rule_returns_func_of_aligned [OF v p, of aten observe_extra "()" 0]
  obtain a' b' where
    "binary_pointwise_helper aten example_A (Some 0) example_B None = Inr (a', b')"
    and r: "binary_pointwise_batch_rule aten observe_extra example_A (Some 0) example_B None () 0 =
      (case observe_extra a' b' () 0 of
         (Inl e, s') \<Rightarrow> (Inl e, s')
       | (Inr result, s') \<Rightarrow> (Inr (result, Some 0), s'))"
    by blast
  with h have "a' = maybePadToLogicalRank example_A (Some 0) 3" and "b' = example_B"
    by simp_all
  then have "observe_extra a' b' () 0 = (Inr (([4, 1, 1, 3], kFloat), ([2, 5, 3], kFloat)), 1)"
    by (simp add: observe_extra_def observe_def maybePadToLogicalRank_def view_pad_def
        rankWithoutBatchDim_def dim_def example_A_def example_B_def eval_nat_numeral)
  with r v show ?thesis by simp
qed

text \<open>
  C8. The pointwise rule is to return the operation applied to the aligned operands, with
  batch dim 0, for every pair of operands, without an error condition of its own. For one
  int64 scalar per batch slot over an empty batch (sizes \<open>[0]\<close>, batch dim 0) and a
  float32 vector it raises instead: the promotion step finds no first slot to index, and
  \<open>Func'\<close> is not called (the count of calls stays 0).
\<close>

theorem pointwise_rule_has_error_condition:
  "valid_bdim no_scalars (Some 0) \<and> valid_bdim float_vector None
   \<and> binary_pointwise_batch_rule aten observe_extra no_scalars (Some 0) float_vector None () 0
       = (Inl IndexError, 0)"
  by (simp add: binary_pointwise_batch_rule_def binary_pointwise_helper_def moveBatchDimToFront_def
      movedim_front_def handleScalarTypePromotion_def select_first_def rankWithoutBatchDim_def
      valid_bdim_def dim_def no_scalars_def float_vector_def Let_def)

text \<open>
  What the comparison rule does. It moves and pads the operands as the alignment does and
  never runs the promotion step: it calls \<open>Func'\<close> on the moved and padded operands,
  with the dtypes they came with, and tags the result with batch dim 0. It agrees with the
  pointwise rule for the same operation whenever both or neither operand is a logical
  scalar.
\<close>

theorem comparison_rule_aligns_without_promotion:
  "(is_logical_scalar a ba = is_logical_scalar b bb \<longrightarrow>
      comparison_pointwise_batch_rule Func' a ba b bb s =
        binary_pointwise_batch_rule R (\<lambda>x y _. Func' x y) a ba b bb extra_args s)
   \<and> (moveBatchDimToFront a ba = Inr a0 \<longrightarrow> moveBatchDimToFront b bb = Inr b0 \<longrightarrow>
        comparison_pointwise_batch_rule Func' a ba b bb s =
          (case Func' (maybePadToLogicalRank a0 ba (max (rankWithoutBatchDim a ba) (rankWithoutBatchDim b bb)))
                     (maybePadToLogicalRank b0 bb (max (rankWithoutBatchDim a ba) (rankWithoutBatchDim b bb))) s of
             (Inl e, s') \<Rightarrow> (Inl e, s')
           | (Inr result, s') \<Rightarrow> (Inr (result, Some 0), s')))"
proof (intro conjI impI)
  assume eq: "is_logical_scalar a ba = is_logical_scalar b bb"
  show "comparison_pointwise_batch_rule Func' a ba b bb s =
        binary_pointwise_batch_rule R (\<lambda>x y _. Func' x y) a ba b bb extra_args s"
    by (simp add: comparison_pointwise_batch_rule_def binary_pointwise_batch_rule_def
        helper_no_promotion [OF eq] Let_def split: sum.splits)
next
  assume "moveBatchDimToFront a ba = Inr a0" and "moveBatchDimToFront b bb = Inr b0"
  then show "comparison_pointwise_batch_rule Func' a ba b bb s =
          (case Func' (maybePadToLogicalRank a0 ba (max (rankWithoutBatchDim a ba) (rankWithoutBatchDim b bb)))
                     (maybePadToLogicalRank b0 bb (max (rankWithoutBatchDim a ba) (rankWithoutBatchDim b bb))) s of
             (Inl e, s') \<Rightarrow> (Inl e, s')
           | (Inr result, s') \<Rightarrow> (Inr (result, Some 0), s'))"
    by (simp add: comparison_pointwise_batch_rule_def Let_def)
qed

theorem comparison_rule_aligns_without_promotion_witness:
  "is_logical_scalar example_A (Some 0) = is_logical_scalar example_B None
   \<and> moveBatchDimToFront example_A (Some 0) = Inr example_A
   \<and> moveBatchDimToFront example_B None = Inr example_B
   \<and> comparison_pointwise_batch_rule observe example_A (Some 0) example_B None 0 =
       binary_pointwise_batch_rule aten (\<lambda>x y _. observe x y) example_A (Some 0) example_B None () 0
   \<and> comparison_pointwise_batch_rule observe example_A (Some 0) example_B None 0 =
       (Inr ((([4, 1, 1, 3], kFloat), ([2, 5, 3], kFloat)), Some 0), 1)"
proof -
  have ls: "is_logical_scalar example_A (Some 0) = is_logical_scalar example_B None"
    by (simp add: is_logical_scalar_def rankWithoutBatchDim_def dim_def example_A_def)
  have ma: "moveBatchDimToFront example_A (Some 0) = Inr example_A"
    by (simp add: moveBatchDimToFront_def movedim_front_def dim_def example_A_def)
  have mb: "moveBatchDimToFront example_B None = Inr example_B"
    by (simp add: moveBatchDimToFront_def)
  note t = comparison_rule_aligns_without_promotion
    [of example_A "Some 0" example_B None observe 0 aten "()" example_A example_B]
  from t ls ma mb have c1:
    "comparison_pointwise_batch_rule observe example_A (Some 0) example_B None 0 =
       binary_pointwise_batch_rule aten (\<lambda>x y _. observe x y) example_A (Some 0) example_B None () 0"
    by blast
  from t ma mb have
    "comparison_pointwise_batch_rule observe example_A (Some 0) example_B None 0 =
       (case observe (maybePadToLogicalRank example_A (Some 0)
            (max (rankWithoutBatchDim example_A (Some 0)) (rankWithoutBatchDim example_B None)))
          (maybePadToLogicalRank example_B None
            (max (rankWithoutBatchDim example_A (Some 0)) (rankWithoutBatchDim example_B None))) 0 of
          (Inl e, s') \<Rightarrow> (Inl e, s')
        | (Inr result, s') \<Rightarrow> (Inr (result, Some 0), s'))"
    by blast
  then have c2: "comparison_pointwise_batch_rule observe example_A (Some 0) example_B None 0 =
       (Inr ((([4, 1, 1, 3], kFloat), ([2, 5, 3], kFloat)), Some 0), 1)"
    by (simp add: observe_def maybePadToLogicalRank_def view_pad_def
        rankWithoutBatchDim_def dim_def example_A_def example_B_def eval_nat_numeral)
  from ls ma mb c1 c2 show ?thesis by blast
qed

text \<open>
  C1. The comparison rule is to align its operands as the pointwise rule does, the scalar
  promotion included. With one int64 scalar per batch slot and a float32 vector it does
  not: the pointwise rule calls the operation on two float32 operands, the comparison rule
  on an int64 and a float32 operand.
\<close>

theorem comparison_rule_skips_promotion:
  "comparison_pointwise_batch_rule observe long_scalars (Some 0) float_vector None 0 =
     (Inr ((([4, 1], kLong), ([3], kFloat)), Some 0), 1)
   \<and> binary_pointwise_batch_rule aten observe_extra long_scalars (Some 0) float_vector None () 0 =
     (Inr ((([4, 1], kFloat), ([3], kFloat)), Some 0), 1)"
  by (simp add: comparison_pointwise_batch_rule_def binary_pointwise_batch_rule_def
      binary_pointwise_helper_def moveBatchDimToFront_def movedim_front_def
      handleScalarTypePromotion_def select_first_def to_def maybePadToLogicalRank_def view_pad_def
      rankWithoutBatchDim_def dim_def long_scalars_def float_vector_def Let_def
      observe_def observe_extra_def aten_def aten_result_type_def combine_categories_def
      isFloatingType_def)

section \<open>Properties of the in-place rule\<close>

text \<open>
  C4. When \<open>self\<close> has no batch dim and \<open>other\<close> has one, the rule raises
  \<open>IncompatibleInPlaceBatching\<close> and the state is the one it was called in: the
  mutating method has not run. In every other configuration (with well-formed batch dims)
  the rule moves and pads the operands, without any promotion of dtypes, and its outcome
  and final state are those of the mutating method on the aligned operands, so it raises
  only what the method raises. The aligned operands keep their dtypes; an operand without
  a batch dim is handed over as it is; an operand with a batch dim has the sizes of the
  moved operand, with size-1 axes, as many as the logical ranks differ by, right after the
  batch axis when its logical rank is the lower one.
\<close>

theorem inplace_rule_fails_before_mutation:
  "(tensor_batch_dim = None \<and> other_batch_dim \<noteq> None \<longrightarrow>
      binary_pointwise_inplace_batch_rule Meth tensor tensor_batch_dim other other_batch_dim extra_args s
        = (Inl IncompatibleInPlaceBatching, s))
   \<and> (\<not> (tensor_batch_dim = None \<and> other_batch_dim \<noteq> None) \<longrightarrow>
        valid_bdim tensor tensor_batch_dim \<longrightarrow> valid_bdim other other_batch_dim \<longrightarrow>
        (\<exists>tensor0 other0 tensor' other'.
           moveBatchDimToFront tensor tensor_batch_dim = Inr tensor0
         \<and> moveBatchDimToFront other other_batch_dim = Inr other0
         \<and> tensor' = maybePadToLogicalRank tensor0 tensor_batch_dim
                        (max (rankWithoutBatchDim tensor tensor_batch_dim)
                             (rankWithoutBatchDim other other_batch_dim))
         \<and> other' = maybePadToLogicalRank other0 other_batch_dim
                        (max (rankWithoutBatchDim tensor tensor_batch_dim)
                             (rankWithoutBatchDim other other_batch_dim))
         \<and> binary_pointwise_inplace_batch_rule Meth tensor tensor_batch_dim other other_batch_dim extra_args s =
             (case Meth tensor' other' extra_args s of
                (Inl e, s') \<Rightarrow> (Inl e, s')
              | (Inr _, s') \<Rightarrow> (Inr (), s'))
         \<and> sizes tensor' =
             (if tensor_batch_dim \<noteq> None
                 \<and> rankWithoutBatchDim tensor tensor_batch_dim < rankWithoutBatchDim other other_batch_dim
              then take 1 (moved_sizes tensor tensor_batch_dim)
                   @ replicate (nat (rankWithoutBatchDim other other_batch_dim
                                      - rankWithoutBatchDim tensor tensor_batch_dim)) 1
                   @ drop 1 (moved_sizes tensor tensor_batch_dim)
              else moved_sizes tensor tensor_batch_dim)
         \<and> sizes other' =
             (if other_batch_dim \<noteq> None
                 \<and> rankWithoutBatchDim other other_batch_dim < rankWithoutBatchDim tensor tensor_batch_dim
              then take 1 (moved_sizes other other_batch_dim)
                   @ replicate (nat (rankWithoutBatchDim tensor tensor_batch_dim
                                      - rankWithoutBatchDim other other_batch_dim)) 1
                   @ drop 1 (moved_sizes other other_batch_dim)
              else moved_sizes other other_batch_dim)
         \<and> scalar_type tensor' = scalar_type tensor \<and> scalar_type other' = scalar_type other
         \<and> (tensor_batch_dim = None \<longrightarrow> tensor' = tensor)
         \<and> (other_batch_dim = None \<longrightarrow> other' = other)))"
proof (intro conjI impI)
  assume "tensor_batch_dim = None \<and> other_batch_dim \<noteq> None"
  then show "binary_pointwise_inplace_batch_rule Meth tensor tensor_batch_dim other other_batch_dim extra_args s
        = (Inl IncompatibleInPlaceBatching, s)"
    by (simp add: binary_pointwise_inplace_batch_rule_def vmapIncompatibleInplaceError_def)
next
  let ?rt = "rankWithoutBatchDim tensor tensor_batch_dim"
  let ?ro = "rankWithoutBatchDim other other_batch_dim"
  assume n: "\<not> (tensor_batch_dim = None \<and> other_batch_dim \<noteq> None)"
    and "valid_bdim tensor tensor_batch_dim" and "valid_bdim other other_batch_dim"
  then obtain tensor0 other0 where
    m: "moveBatchDimToFront tensor tensor_batch_dim = Inr tensor0"
       "moveBatchDimToFront other other_batch_dim = Inr other0"
    using move_Inr_iff by blast
  let ?t = "maybePadToLogicalRank tensor0 tensor_batch_dim (max ?rt ?ro)"
  let ?o = "maybePadToLogicalRank other0 other_batch_dim (max ?rt ?ro)"
  have rule: "binary_pointwise_inplace_batch_rule Meth tensor tensor_batch_dim other other_batch_dim extra_args s =
      (case Meth ?t ?o extra_args s of
         (Inl e, s') \<Rightarrow> (Inl e, s')
       | (Inr _, s') \<Rightarrow> (Inr (), s'))"
    using n m by (auto simp: binary_pointwise_inplace_batch_rule_def Let_def)
  have rt0: "rankWithoutBatchDim tensor0 tensor_batch_dim = ?rt"
    using move_dim [OF m(1)] by (simp add: rankWithoutBatchDim_def)
  have ro0: "rankWithoutBatchDim other0 other_batch_dim = ?ro"
    using move_dim [OF m(2)] by (simp add: rankWithoutBatchDim_def)
  have st: "sizes ?t =
      (if tensor_batch_dim \<noteq> None \<and> ?rt < ?ro
       then take 1 (moved_sizes tensor tensor_batch_dim) @ replicate (nat (?ro - ?rt)) 1
            @ drop 1 (moved_sizes tensor tensor_batch_dim)
       else moved_sizes tensor tensor_batch_dim)"
    using move_sizes [OF m(1)] rt0
    by (cases tensor_batch_dim) (auto simp: maybePadToLogicalRank_def view_pad_def Let_def)
  have so: "sizes ?o =
      (if other_batch_dim \<noteq> None \<and> ?ro < ?rt
       then take 1 (moved_sizes other other_batch_dim) @ replicate (nat (?rt - ?ro)) 1
            @ drop 1 (moved_sizes other other_batch_dim)
       else moved_sizes other other_batch_dim)"
    using move_sizes [OF m(2)] ro0
    by (cases other_batch_dim) (auto simp: maybePadToLogicalRank_def view_pad_def Let_def)
  have dt: "scalar_type ?t = scalar_type tensor" "scalar_type ?o = scalar_type other"
    using move_scalar_type [OF m(1)] move_scalar_type [OF m(2)] by (simp_all add: pad_scalar_type)
  have same: "tensor_batch_dim = None \<longrightarrow> ?t = tensor" "other_batch_dim = None \<longrightarrow> ?o = other"
    using m by (auto simp: move_None maybePadToLogicalRank_def)
  from m rule st so dt same
  show "\<exists>tensor0 other0 tensor' other'.
           moveBatchDimToFront tensor tensor_batch_dim = Inr tensor0
         \<and> moveBatchDimToFront other other_batch_dim = Inr other0
         \<and> tensor' = maybePadToLogicalRank tensor0 tensor_batch_dim (max ?rt ?ro)
         \<and> other' = maybePadToLogicalRank other0 other_batch_dim (max ?rt ?ro)
         \<and> binary_pointwise_inplace_batch_rule Meth tensor tensor_batch_dim other other_batch_dim extra_args s =
             (case Meth tensor' other' extra_args s of
                (Inl e, s') \<Rightarrow> (Inl e, s')
              | (Inr _, s') \<Rightarrow> (Inr (), s'))
         \<and> sizes tensor' =
             (if tensor_batch_dim \<noteq> None \<and> ?rt < ?ro
              then take 1 (moved_sizes tensor tensor_batch_dim) @ replicate (nat (?ro - ?rt)) 1
                   @ drop 1 (moved_sizes tensor tensor_batch_dim)
              else moved_sizes tensor tensor_batch_dim)
         \<and> sizes other' =
             (if other_batch_dim \<noteq> None \<and> ?ro < ?rt
              then take 1 (moved_sizes other other_batch_dim) @ replicate (nat (?rt - ?ro)) 1
                   @ drop 1 (moved_sizes other other_batch_dim)
              else moved_sizes other other_batch_dim)
         \<and> scalar_type tensor' = scalar_type tensor \<and> scalar_type other' = scalar_type other
         \<and> (tensor_batch_dim = None \<longrightarrow> tensor' = tensor)
         \<and> (other_batch_dim = None \<longrightarrow> other' = other)"
    by blast
qed

text \<open>The recording method shows what the rule hands over: nothing when \<open>self\<close> is
  unbatched and \<open>other\<close> batched; the operands of the example of section 8 as
  \<open>[4, 1, 1, 3]\<close> and \<open>[2, 5, 3]\<close>; one int64 scalar per batch slot and a float32
  vector as \<open>[4, 1]\<close>, still int64, and \<open>[3]\<close>, float32.\<close>

theorem inplace_rule_fails_before_mutation_witness:
  "binary_pointwise_inplace_batch_rule record_call example_B None example_A (Some 0) () []
     = (Inl IncompatibleInPlaceBatching, [])
   \<and> valid_bdim example_A (Some 0) \<and> valid_bdim example_B None
   \<and> binary_pointwise_inplace_batch_rule record_call example_A (Some 0) example_B None () []
     = (Inr (), [(([4, 1, 1, 3], kFloat), ([2, 5, 3], kFloat))])
   \<and> valid_bdim long_scalars (Some 0) \<and> valid_bdim float_vector None
   \<and> binary_pointwise_inplace_batch_rule record_call long_scalars (Some 0) float_vector None () []
     = (Inr (), [(([4, 1], kLong), ([3], kFloat))])"
proof -
  have v: "valid_bdim example_A (Some 0)" "valid_bdim example_B None"
    "valid_bdim long_scalars (Some 0)" "valid_bdim float_vector None"
    by (simp_all add: valid_bdim_def dim_def example_A_def long_scalars_def)
  have 1: "binary_pointwise_inplace_batch_rule record_call example_B None example_A (Some 0) () []
     = (Inl IncompatibleInPlaceBatching, [])"
    using inplace_rule_fails_before_mutation
      [of None "Some 0" record_call example_B example_A "()" "[]"]
    by simp
  from inplace_rule_fails_before_mutation
      [of "Some 0" None record_call example_A example_B "()" "[]"] v(1,2)
  have "\<exists>tensor' other' :: int Tensor.
      binary_pointwise_inplace_batch_rule record_call example_A (Some 0) example_B None () [] =
        (case record_call tensor' other' () [] of
           (Inl e, s') \<Rightarrow> (Inl e, s')
         | (Inr _, s') \<Rightarrow> (Inr (), s'))
      \<and> sizes tensor' = [4, 1, 1, 3] \<and> sizes other' = [2, 5, 3]
      \<and> scalar_type tensor' = kFloat \<and> scalar_type other' = kFloat"
    by (simp add: moved_sizes_def rankWithoutBatchDim_def dim_def
        example_A_def example_B_def eval_nat_numeral) blast
  then have 2: "binary_pointwise_inplace_batch_rule record_call example_A (Some 0) example_B None () []
     = (Inr (), [(([4, 1, 1, 3], kFloat), ([2, 5, 3], kFloat))])"
    by (auto simp: record_call_def)
  from inplace_rule_fails_before_mutation
      [of "Some 0" None record_call long_scalars float_vector "()" "[]"] v(3,4)
  have "\<exists>tensor' other' :: int Tensor.
      binary_pointwise_inplace_batch_rule record_call long_scalars (Some 0) float_vector None () [] =
        (case record_call tensor' other' () [] of
           (Inl e, s') \<Rightarrow> (Inl e, s')
         | (Inr _, s') \<Rightarrow> (Inr (), s'))
      \<and> sizes tensor' = [4, 1] \<and> sizes other' = [3]
      \<and> scalar_type tensor' = kLong \<and> scalar_type other' = kFloat"
    by (simp add: moved_sizes_def rankWithoutBatchDim_def dim_def
        long_scalars_def float_vector_def) blast
  then have 3: "binary_pointwise_inplace_batch_rule record_call long_scalars (Some 0) float_vector None () []
     = (Inr (), [(([4, 1], kLong), ([3], kFloat))])"
    by (auto simp: record_call_def)
  from 1 2 3 v show ?thesis by blast
qed

section \<open>Properties of the randomness-aware rule\<close>

lemma check_randomness_unbatched: "check_randomness r False = Inr ()"
  by (simp add: check_randomness_def)

text \<open>
  C5. Neither operand has a batch dim at the current level. In mode \<open>Different\<close> the
  rule is the pointwise rule on the first operand broadcast along a new leading axis of
  the batch size, with batch dim 0, and the second operand as it is, without a batch dim;
  the result is re-wrapped at the current level. In mode \<open>Same\<close> the rule is one call
  of the operation on the two operands as they are: its outcome and final state are those
  of that call, and the result is handed back plain, with no batch dim.
\<close>

theorem random_rule_unbatched_operands:
  assumes "unwrapTensorAtLevel tensor (layerId maybe_layer) = (tensor_value, None)"
    and "unwrapTensorAtLevel other (layerId maybe_layer) = (other_value, None)"
  shows "(randomness maybe_layer = Different \<longrightarrow>
            BinaryRandomPointwiseBatchRuleHelper_apply R maybe_layer unwrapTensorAtLevel Func'
                tensor other extra_args s =
              (case binary_pointwise_batch_rule R Func'
                      (expand_front tensor_value (batchSize maybe_layer)) (Some 0)
                      other_value None extra_args s of
                 (Inl e, s') \<Rightarrow> (Inl e, s')
               | (Inr res, s') \<Rightarrow>
                   (Inr (Rewrapped (makeBatched (fst res) (snd res) (layerId maybe_layer))), s'))
          \<and> sizes (expand_front tensor_value (batchSize maybe_layer)) =
              batchSize maybe_layer # sizes tensor_value
          \<and> (\<forall>i idx. elems (expand_front tensor_value (batchSize maybe_layer)) (i # idx) =
                elems tensor_value idx))
       \<and> (randomness maybe_layer = Same \<longrightarrow>
            BinaryRandomPointwiseBatchRuleHelper_apply R maybe_layer unwrapTensorAtLevel Func'
                tensor other extra_args s =
              (case Func' tensor_value other_value extra_args s of
                 (Inl e, s') \<Rightarrow> (Inl e, s')
               | (Inr r, s') \<Rightarrow> (Inr (Plain r), s')))"
  using assms
  by (simp add: BinaryRandomPointwiseBatchRuleHelper_apply_def check_randomness_unbatched
      expand_front_def Let_def)

theorem random_rule_unbatched_operands_witness:
  "unwrap_given (float_vector, None) (layerId (layer_with Different)) = (float_vector, None)
   \<and> BinaryRandomPointwiseBatchRuleHelper_apply aten (layer_with Different) unwrap_given
        observe_extra (float_vector, None) (float_vector, None) () 0 =
       (Inr (Rewrapped \<lparr>payload = (([4, 3], kFloat), ([3], kFloat)), batch_dim = Some 0, level = 1\<rparr>), 1)
   \<and> BinaryRandomPointwiseBatchRuleHelper_apply aten (layer_with Same) unwrap_given
        observe_extra (float_vector, None) (float_vector, None) () 0 =
       (Inr (Plain (([3], kFloat), ([3], kFloat))), 1)"
proof -
  have u: "unwrap_given (float_vector, None) (layerId (layer_with r)) = (float_vector, None)" for r
    by (simp add: unwrap_given_def)
  have e: "binary_pointwise_batch_rule aten observe_extra (expand_front float_vector 4) (Some 0)
             float_vector None () 0 = (Inr ((([4, 3], kFloat), ([3], kFloat)), Some 0), 1)"
    by (simp add: binary_pointwise_batch_rule_def binary_pointwise_helper_def
        moveBatchDimToFront_def movedim_front_def maybePadToLogicalRank_def expand_front_def
        rankWithoutBatchDim_def dim_def float_vector_def Let_def observe_def observe_extra_def)
  have d: "BinaryRandomPointwiseBatchRuleHelper_apply aten (layer_with Different) unwrap_given
        observe_extra (float_vector, None) (float_vector, None) () 0 =
       (Inr (Rewrapped \<lparr>payload = (([4, 3], kFloat), ([3], kFloat)), batch_dim = Some 0, level = 1\<rparr>), 1)"
    using random_rule_unbatched_operands [where unwrapTensorAtLevel = unwrap_given
        and maybe_layer = "layer_with Different" and tensor = "(float_vector, None)"
        and other = "(float_vector, None)" and tensor_value = float_vector
        and other_value = float_vector and R = aten and Func' = observe_extra
        and extra_args = "()" and s = 0, OF u u]
    by (simp add: layer_with_def e makeBatched_def)
  have s: "BinaryRandomPointwiseBatchRuleHelper_apply aten (layer_with Same) unwrap_given
        observe_extra (float_vector, None) (float_vector, None) () 0 =
       (Inr (Plain (([3], kFloat), ([3], kFloat))), 1)"
    using random_rule_unbatched_operands [where unwrapTensorAtLevel = unwrap_given
        and maybe_layer = "layer_with Same" and tensor = "(float_vector, None)"
        and other = "(float_vector, None)" and tensor_value = float_vector
        and other_value = float_vector and R = aten and Func' = observe_extra
        and extra_args = "()" and s = 0, OF u u]
    by (simp add: layer_with_def observe_extra_def observe_def float_vector_def)
  from u d s show ?thesis by blast
qed

text \<open>
  C6. The rule raises \<open>AmbiguousRandomness\<close>, before anything else is done, when the mode
  is \<open>Error\<close> and an operand has a batch dim at the current level, and the check raises
  in no other case: the rule then takes the branch for \<open>Different\<close> without batch dims,
  the branch for \<open>Same\<close> without batch dims, or the pointwise rule on the operands as
  they are.
\<close>

theorem random_rule_error_iff_error_mode_and_batched:
  assumes "unwrapTensorAtLevel tensor (layerId maybe_layer) = (tensor_value, tensor_bdim)"
    and "unwrapTensorAtLevel other (layerId maybe_layer) = (other_value, other_bdim)"
  shows "(check_randomness (randomness maybe_layer) (tensor_bdim \<noteq> None \<or> other_bdim \<noteq> None)
            = Inl AmbiguousRandomness
          \<longleftrightarrow> randomness maybe_layer = Error \<and> (tensor_bdim \<noteq> None \<or> other_bdim \<noteq> None))
       \<and> (randomness maybe_layer = Error \<and> (tensor_bdim \<noteq> None \<or> other_bdim \<noteq> None) \<longrightarrow>
            BinaryRandomPointwiseBatchRuleHelper_apply R maybe_layer unwrapTensorAtLevel Func'
                tensor other extra_args s = (Inl AmbiguousRandomness, s))
       \<and> (\<not> (randomness maybe_layer = Error \<and> (tensor_bdim \<noteq> None \<or> other_bdim \<noteq> None)) \<longrightarrow>
            check_randomness (randomness maybe_layer) (tensor_bdim \<noteq> None \<or> other_bdim \<noteq> None)
              = Inr ()
          \<and> BinaryRandomPointwiseBatchRuleHelper_apply R maybe_layer unwrapTensorAtLevel Func'
                tensor other extra_args s =
              (if randomness maybe_layer = Different \<and> tensor_bdim = None \<and> other_bdim = None then
                 (case binary_pointwise_batch_rule R Func'
                         (expand_front tensor_value (batchSize maybe_layer)) (Some 0)
                         other_value other_bdim extra_args s of
                    (Inl e, s') \<Rightarrow> (Inl e, s')
                  | (Inr res, s') \<Rightarrow>
                      (Inr (Rewrapped (makeBatched (fst res) (snd res) (layerId maybe_layer))), s'))
               else if randomness maybe_layer = Same \<and> tensor_bdim = None \<and> other_bdim = None then
                 (case Func' tensor_value other_value extra_args s of
                    (Inl e, s') \<Rightarrow> (Inl e, s')
                  | (Inr r, s') \<Rightarrow> (Inr (Plain r), s'))
               else
                 (case binary_pointwise_batch_rule R Func' tensor_value tensor_bdim
                         other_value other_bdim extra_args s of
                    (Inl e, s') \<Rightarrow> (Inl e, s')
                  | (Inr res, s') \<Rightarrow>
                      (Inr (Rewrapped (makeBatched (fst res) (snd res) (layerId maybe_layer))), s'))))"
  using assms
  by (auto simp: BinaryRandomPointwiseBatchRuleHelper_apply_def check_randomness_def Let_def)

theorem random_rule_error_iff_error_mode_and_batched_witness:
  "unwrap_given (example_A, Some 0) (layerId (layer_with Error)) = (example_A, Some 0)
   \<and> unwrap_given (example_B, None) (layerId (layer_with Error)) = (example_B, None)
   \<and> BinaryRandomPointwiseBatchRuleHelper_apply aten (layer_with Error) unwrap_given
        observe_extra (example_A, Some 0) (example_B, None) () 0 = (Inl AmbiguousRandomness, 0)
   \<and> check_randomness Same True = Inr ()"
proof -
  have u: "unwrap_given v (layerId (layer_with r)) = v" for v :: "int Tensor \<times> int option" and r
    by (simp add: unwrap_given_def)
  have r: "randomness (layer_with r) = r" for r by (simp add: layer_with_def)
  note t = random_rule_error_iff_error_mode_and_batched
  from t [where unwrapTensorAtLevel = unwrap_given and maybe_layer = "layer_with Error"
        and tensor = "(example_A, Some 0)" and other = "(example_B, None)"
        and tensor_value = example_A and tensor_bdim = "Some 0"
        and other_value = example_B and other_bdim = None and R = aten and Func' = observe_extra
        and extra_args = "()" and s = 0, OF u u]
  have 1: "BinaryRandomPointwiseBatchRuleHelper_apply aten (layer_with Error) unwrap_given
        observe_extra (example_A, Some 0) (example_B, None) () 0 = (Inl AmbiguousRandomness, 0)"
    by (simp add: r)
  from t [where unwrapTensorAtLevel = unwrap_given and maybe_layer = "layer_with Same"
        and tensor = "(example_A, Some 0)" and other = "(example_B, None)"
        and tensor_value = example_A and tensor_bdim = "Some 0"
        and other_value = example_B and other_bdim = None and R = aten and Func' = observe_extra
        and extra_args = "()" and s = 0, OF u u]
  have 2: "check_randomness Same True = Inr ()"
    by (simp add: r)
  from 1 2 u show ?thesis by blast
qed

section \<open>Properties of the gradient rule of the distance matrix\<close>

text \<open>
  C10. Whenever the rule returns, the batch dim of its result is 0 if \<open>x1\<close> (which the
  first step gives a batch dim when \<open>cdist\<close> has one) or \<open>x2\<close> has a batch dim, and
  absent otherwise; the batch dim of \<open>grad\<close> plays no part. With only \<open>grad\<close> batched
  (by a well-formed batch dim) the rule is one call of the runtime's operation on
  \<open>grad\<close> moved to the front and the other operands as they are, and what that returns is
  reported without a batch dim.
\<close>

theorem cdist_backward_result_bdim:
  "(cdist_backward_batch_rule R get_bdim_size2 cdist_backward
        grad grad_bdim x1 x1_bdim x2 x2_bdim p cdist cdist_bdim s = (Inr (out, out_bdim), s') \<longrightarrow>
      out_bdim = (if (x1_bdim \<noteq> None \<or> cdist_bdim \<noteq> None) \<or> x2_bdim \<noteq> None then Some 0 else None))
   \<and> (moveBatchDimToFront grad grad_bdim = Inr grad0 \<longrightarrow>
        cdist_backward_batch_rule R get_bdim_size2 cdist_backward
            grad grad_bdim x1 None x2 None p cdist None s =
          (case cdist_backward grad0 x1 x2 p cdist s of
             (Inl e, s') \<Rightarrow> (Inl e, s')
           | (Inr out, s') \<Rightarrow> (Inr (out, None), s')))"
proof (intro conjI impI)
  assume "cdist_backward_batch_rule R get_bdim_size2 cdist_backward
        grad grad_bdim x1 x1_bdim x2 x2_bdim p cdist cdist_bdim s = (Inr (out, out_bdim), s')"
  then show "out_bdim = (if (x1_bdim \<noteq> None \<or> cdist_bdim \<noteq> None) \<or> x2_bdim \<noteq> None then Some 0 else None)"
    unfolding cdist_backward_batch_rule_def Let_def
    by (cases cdist_bdim; cases x1_bdim) (auto split: sum.splits prod.splits if_splits)
next
  assume "moveBatchDimToFront grad grad_bdim = Inr grad0"
  moreover have "binary_pointwise_helper R x1 None x2 None = Inr (x1, x2)"
    by (simp add: helper_no_promotion is_logical_scalar_def move_None maybePadToLogicalRank_def)
  ultimately show "cdist_backward_batch_rule R get_bdim_size2 cdist_backward
            grad grad_bdim x1 None x2 None p cdist None s =
          (case cdist_backward grad0 x1 x2 p cdist s of
             (Inl e, s') \<Rightarrow> (Inl e, s')
           | (Inr out, s') \<Rightarrow> (Inr (out, None), s'))"
    by (simp add: cdist_backward_batch_rule_def Let_def split: prod.splits sum.splits)
qed

theorem cdist_backward_result_bdim_witness:
  "moveBatchDimToFront dist_grad_batched (Some 0) = Inr dist_grad_batched
   \<and> cdist_backward_batch_rule aten first_bdim_size observe_cdist
        dist_grad_batched (Some 0) dist_x1 None dist_x2 None () dist_cdist None 0 =
       (Inr (([4, 2, 5], [2, 3], [5, 3]), None), 1)
   \<and> cdist_backward_batch_rule aten first_bdim_size observe_cdist
        dist_grad None dist_x1_batched (Some 0) dist_x2 None () dist_cdist None 0 =
       (Inr (([4, 2, 5], [4, 2, 3], [5, 3]), Some 0), 1)"
proof -
  note t = cdist_backward_result_bdim [where R = aten and ?get_bdim_size2.0 = first_bdim_size
      and cdist_backward = observe_cdist and p = "()" and cdist = dist_cdist and s = 0]
  have m: "moveBatchDimToFront dist_grad_batched (Some 0) = Inr dist_grad_batched"
    by (simp add: moveBatchDimToFront_def movedim_front_def dim_def dist_grad_batched_def)
  from t [where grad = dist_grad_batched and grad_bdim = "Some 0" and ?grad0.0 = dist_grad_batched
      and ?x1.0 = dist_x1 and ?x2.0 = dist_x2] m
  have 1: "cdist_backward_batch_rule aten first_bdim_size observe_cdist
        dist_grad_batched (Some 0) dist_x1 None dist_x2 None () dist_cdist None 0 =
       (Inr (([4, 2, 5], [2, 3], [5, 3]), None), 1)"
    by (simp add: observe_cdist_def dist_grad_batched_def dist_x1_def dist_x2_def)
  obtain out_bdim where r: "cdist_backward_batch_rule aten first_bdim_size observe_cdist
        dist_grad None dist_x1_batched (Some 0) dist_x2 None () dist_cdist None 0 =
       (Inr (([4, 2, 5], [4, 2, 3], [5, 3]), out_bdim), 1)"
    by (simp add: cdist_backward_batch_rule_def binary_pointwise_helper_def
        moveBatchDimToFront_def movedim_front_def maybePadToLogicalRank_def
        rankWithoutBatchDim_def dim_def first_bdim_size_def size_at_def ensure_has_bdim_def
        contiguous_def expand_front_def observe_cdist_def Let_def
        dist_grad_def dist_x1_batched_def dist_x2_def)
  from t [where grad = dist_grad and grad_bdim = None and ?x1.0 = dist_x1_batched
      and x1_bdim = "Some 0" and ?x2.0 = dist_x2 and x2_bdim = None and cdist_bdim = None
      and out = "([4, 2, 5], [4, 2, 3], [5, 3])" and out_bdim = out_bdim and s' = 1] r
  have "out_bdim = Some 0" by simp
  with r m 1 show ?thesis by simp
qed

section \<open>Properties of select-by-mask\<close>

lemma indices_length: "idx \<in> set (indices sh) \<Longrightarrow> length idx = length sh"
  by (induction sh arbitrary: idx) auto

lemma indices_range: "idx \<in> set (indices sh) \<Longrightarrow> list_all2 (\<lambda>i n. 0 \<le> i \<and> i < n) idx sh"
  by (induction sh arbitrary: idx) auto

lemma broadcast_index_id:
  assumes "idx \<in> set (indices sh)"
  shows "broadcast_index sh idx = idx"
proof -
  have "list_all2 (\<lambda>i n. 0 \<le> i \<and> i < n) idx sh \<Longrightarrow> map2 (\<lambda>n i. if n = 1 then 0 else i) sh idx = idx"
    for idx sh :: "int list"
    by (induction idx sh rule: list_all2_induct) auto
  then show ?thesis
    using indices_range [OF assms] indices_length [OF assms] by (simp add: broadcast_index_def)
qed

lemma broadcast_index_Cons:
  "length sz \<le> length idx \<Longrightarrow> broadcast_index sz (i # idx) = broadcast_index sz idx"
  by (simp add: broadcast_index_def Suc_diff_le)

lemma length_filter_concat:
  "length (filter P (concat xss)) = sum_list (map (\<lambda>xs. length (filter P xs)) xss)"
  by (induction xss) auto

lemma sum_list_const: "sum_list (map (\<lambda>_. c) xs) = length xs * (c::nat)"
  by (induction xs) auto

lemma length_filter_indices_Cons:
  assumes "\<And>i idx. idx \<in> set (indices sh) \<Longrightarrow> P (i # idx) = Q idx"
  shows "length (filter P (indices (n # sh))) = nat n * length (filter Q (indices sh))"
proof -
  have "length (filter P (map ((#) i) (indices sh))) = length (filter Q (indices sh))" for i
  proof -
    have "filter P (map ((#) i) (indices sh)) = map ((#) i) (filter Q (indices sh))"
      using assms by (simp add: filter_map comp_def cong: filter_cong)
    then show ?thesis by simp
  qed
  then show ?thesis
    by (simp add: length_filter_concat comp_def sum_list_const)
qed

lemma infer_size_length:
  "infer_size a b = Inr sh \<Longrightarrow> length sh = max (length a) (length b)"
  by (auto simp: infer_size_def pad_left_def Let_def split: if_splits)

lemma infer_size_batch:
  assumes "infer_size l m = Inr sh"
  shows "infer_size (b # pad_left (max (length l) (length m)) l) m = Inr (b # sh)"
proof -
  let ?n = "max (length l) (length m)"
  have l: "length (pad_left ?n l) = ?n" by (simp add: pad_left_def)
  have p: "pad_left (Suc ?n) m = 1 # pad_left ?n m"
    by (simp add: pad_left_def Suc_diff_le)
  have q: "pad_left (Suc ?n) (b # pad_left ?n l) = b # pad_left ?n l"
    by (simp add: pad_left_def)
  have r: "pad_left ?n (pad_left ?n l) = pad_left ?n l"
    by (simp add: pad_left_def)
  from assms show ?thesis
    by (auto simp: infer_size_def Let_def l p q split: if_splits)
qed


lemma moved_sizes_Some: "moved_sizes t (Some d) = (sizes t ! nat d) # logical_sizes t (Some d)"
  by (simp add: moved_sizes_def logical_sizes_def)

lemma logical_sizes_length:
  "valid_bdim t (Some d) \<Longrightarrow> int (length (logical_sizes t (Some d))) = dim t - 1"
  by (auto simp: logical_sizes_def valid_bdim_def dim_def)

lemma pad_front_sizes:
  assumes "sizes t0 = b # l"
  shows "sizes (maybePadToLogicalRank t0 (Some 0) (max (int (length l)) (int (length m)))) =
           b # pad_left (max (length l) (length m)) l"
  using assms
  by (auto simp: maybePadToLogicalRank_def view_pad_def rankWithoutBatchDim_def dim_def
      pad_left_def Let_def max_def nat_diff_distrib')

lemma masked_select_count:
  assumes "infer_size l (sizes mask') = Inr shape"
  shows "length (masked_select_indices mask' (b # shape)) =
           nat b * length (masked_select_indices mask' shape)"
  unfolding masked_select_indices_def
proof (rule length_filter_indices_Cons)
  fix i idx assume "idx \<in> set (indices shape)"
  then have "length (sizes mask') \<le> length idx"
    using infer_size_length [OF assms] indices_length by fastforce
  then show "elems mask' (broadcast_index (sizes mask') (i # idx))
           = elems mask' (broadcast_index (sizes mask') idx)"
    by (simp add: broadcast_index_Cons)
qed


lemma view_rows_sizes:
  assumes "sizes t = [b * k]" and "0 < b"
  shows "\<exists>r. view_rows t b = Inr r \<and> sizes r = [b, k]"
  using assms by (simp add: view_rows_def Let_def)

text \<open>The success of the rule on a batched \<open>self\<close> and an unbatched boolean mask.\<close>

lemma masked_select_batched_self:
  assumes "valid_bdim self (Some d)" and "0 < sizes self ! nat d"
    and "scalar_type mask' = kBool"
    and "infer_size (logical_sizes self (Some d)) (sizes mask') = Inr shape"
  shows "\<exists>result. masked_select_batch_rule at_masked_select self (Some d) mask' None s
                     = (Inr (result, Some 0), s)
            \<and> sizes result = [sizes self ! nat d, count_true_broadcast mask' shape]"
proof -
  let ?b = "sizes self ! nat d" and ?l = "logical_sizes self (Some d)"
  let ?r = "max (rankWithoutBatchDim self (Some d)) (dim mask')"
  from assms(1) obtain self0 where m: "moveBatchDimToFront self (Some d) = Inr self0"
    using move_Inr_iff by blast
  have s0: "sizes self0 = ?b # ?l"
    using move_sizes [OF m] by (simp add: moved_sizes_Some)
  then have sz: "size_at self0 0 = Inr ?b"
    by (simp add: size_at_def dim_def)
  have r: "?r = max (int (length ?l)) (int (length (sizes mask')))"
    using logical_sizes_length [OF assms(1)] by (simp add: rankWithoutBatchDim_def dim_def)
  let ?self1 = "maybePadToLogicalRank self0 (Some 0) ?r"
  have s1: "sizes ?self1 = ?b # pad_left (max (length ?l) (length (sizes mask'))) ?l"
    unfolding r by (rule pad_front_sizes [OF s0])
  have inf: "infer_size (sizes ?self1) (sizes mask') = Inr (?b # shape)"
    unfolding s1 by (rule infer_size_batch [OF assms(4)])
  have cnt: "length (masked_select_indices mask' (?b # shape)) =
      nat ?b * length (masked_select_indices mask' shape)"
    by (rule masked_select_count [OF assms(4)])
  obtain selected where sel: "at_masked_select ?self1 mask' s = (Inr selected, s)"
    and ssel: "sizes selected = [?b * count_true_broadcast mask' shape]"
    using assms(2,3) by (simp add: at_masked_select_def inf cnt count_true_broadcast_def Let_def)
  from view_rows_sizes [OF ssel assms(2)] obtain result where
    v: "view_rows selected ?b = Inr result" and vs: "sizes result = [?b, count_true_broadcast mask' shape]"
    by blast
  have "masked_select_batch_rule at_masked_select self (Some d) mask' None s = (Inr (result, Some 0), s)"
    by (simp add: masked_select_batch_rule_def m sz sel v Let_def)
  with vs show ?thesis by blast
qed

text \<open>
  C7, as the code has it. Whenever the mask has a batch dim, whatever \<open>self\<close>, its batch
  dim, the mask and the runtime's operation are, the rule raises
  \<open>UnsupportedMaskBatching\<close> and the state is the one the rule was called in: no
  operation of the runtime has been called. With \<open>self\<close> batched over a non-empty batch
  and an unbatched boolean mask that broadcasts against the logical shape of \<open>self\<close>, the
  result has batch dim 0 and the sizes (batch size, number of true entries of the mask as
  broadcast to the common logical shape). That number is the number of true entries of
  the mask whenever the common shape is the mask's own.
\<close>

theorem masked_select_rule_shape:
  "(mask_bdim \<noteq> None \<longrightarrow>
      masked_select_batch_rule masked_select self self_bdim mask' mask_bdim s
        = (Inl UnsupportedMaskBatching, s))
   \<and> (valid_bdim self (Some d) \<and> 0 < sizes self ! nat d \<and> scalar_type mask' = kBool
        \<and> infer_size (logical_sizes self (Some d)) (sizes mask') = Inr shape \<longrightarrow>
        (\<exists>result. masked_select_batch_rule at_masked_select self (Some d) mask' None s
                     = (Inr (result, Some 0), s)
            \<and> sizes result = [sizes self ! nat d, count_true_broadcast mask' shape]))
   \<and> (shape = sizes mask' \<longrightarrow> count_true_broadcast mask' shape = count_true mask')"
proof (intro conjI impI)
  assume "mask_bdim \<noteq> None"
  then show "masked_select_batch_rule masked_select self self_bdim mask' mask_bdim s
        = (Inl UnsupportedMaskBatching, s)"
    by (simp add: masked_select_batch_rule_def)
next
  assume h: "valid_bdim self (Some d) \<and> 0 < sizes self ! nat d \<and> scalar_type mask' = kBool
        \<and> infer_size (logical_sizes self (Some d)) (sizes mask') = Inr shape"
  then have h1: "valid_bdim self (Some d)" and h2: "0 < sizes self ! nat d"
    and h3: "scalar_type mask' = kBool"
    and h4: "infer_size (logical_sizes self (Some d)) (sizes mask') = Inr shape"
    by simp_all
  show "\<exists>result. masked_select_batch_rule at_masked_select self (Some d) mask' None s
                     = (Inr (result, Some 0), s)
            \<and> sizes result = [sizes self ! nat d, count_true_broadcast mask' shape]"
    by (rule masked_select_batched_self [OF h1 h2 h3 h4])
next
  assume "shape = sizes mask'"
  then show "count_true_broadcast mask' shape = count_true mask'"
    by (simp add: count_true_broadcast_def count_true_def masked_select_indices_def
        broadcast_index_id cong: filter_cong)
qed

text \<open>The error half at a 0-d \<open>self\<close> with a batched uint8 mask and at a batched
  \<open>self\<close> with a batched boolean mask: the count of calls of the runtime's operation
  stays 0, while the rule with an unbatched mask calls it once. The success half at a batch
  of 2 vectors and a mask with 2 of 3 entries true.\<close>

theorem masked_select_rule_shape_witness:
  "masked_select_batch_rule counted_masked_select scalar_self None byte_mask_batched (Some 0) 0
     = (Inl UnsupportedMaskBatching, 0)
   \<and> masked_select_batch_rule counted_masked_select select_self (Some 0) mask_two_of_three (Some 0) 0
     = (Inl UnsupportedMaskBatching, 0)
   \<and> snd (masked_select_batch_rule counted_masked_select select_self (Some 0) mask_two_of_three None 0)
     = 1
   \<and> valid_bdim select_self (Some 0) \<and> 0 < sizes select_self ! nat 0
   \<and> scalar_type mask_two_of_three = kBool
   \<and> infer_size (logical_sizes select_self (Some 0)) (sizes mask_two_of_three) = Inr [3]
   \<and> count_true mask_two_of_three = 2
   \<and> result_sizes (masked_select_batch_rule at_masked_select select_self (Some 0)
        mask_two_of_three None (0::nat)) = Inr ([2, 2], Some 0)"
proof -
  have a: "valid_bdim select_self (Some 0) \<and> 0 < sizes select_self ! nat 0
      \<and> scalar_type mask_two_of_three = kBool
      \<and> infer_size (logical_sizes select_self (Some 0)) (sizes mask_two_of_three) = Inr [3]"
    by (simp add: valid_bdim_def dim_def infer_size_def pad_left_def logical_sizes_def
        select_self_def mask_two_of_three_def Let_def)
  have c: "count_true mask_two_of_three = 2"
    by (simp add: count_true_def mask_two_of_three_def upto.simps)
  have ms: "sizes mask_two_of_three = [3]"
    by (simp add: mask_two_of_three_def)
  have e1: "masked_select_batch_rule counted_masked_select scalar_self None byte_mask_batched (Some 0) 0
     = (Inl UnsupportedMaskBatching, 0)"
    using masked_select_rule_shape [where mask_bdim = "Some 0" and masked_select = counted_masked_select
        and self = scalar_self and self_bdim = None and mask' = byte_mask_batched and s = 0]
    by simp
  note t = masked_select_rule_shape [where mask_bdim = "Some 0"
      and masked_select = counted_masked_select and self = select_self and self_bdim = "Some 0"
      and mask' = mask_two_of_three and s = 0 and d = 0 and shape = "[3]"]
  from t have e2: "masked_select_batch_rule counted_masked_select select_self (Some 0)
      mask_two_of_three (Some 0) 0 = (Inl UnsupportedMaskBatching, 0)"
    by simp
  from t ms have k: "count_true_broadcast mask_two_of_three [3] = count_true mask_two_of_three"
    by simp
  from t a obtain result where
    "masked_select_batch_rule at_masked_select select_self (Some 0) mask_two_of_three None (0::nat)
       = (Inr (result, Some 0), 0)"
    and "sizes result = [sizes select_self ! nat 0, count_true_broadcast mask_two_of_three [3]]"
    by blast
  then have r: "result_sizes (masked_select_batch_rule at_masked_select select_self (Some 0)
        mask_two_of_three None (0::nat)) = Inr ([2, 2], Some 0)"
    by (simp add: result_sizes_def k c select_self_def)
  have n: "snd (masked_select_batch_rule counted_masked_select select_self (Some 0)
      mask_two_of_three None 0) = 1"
    by (simp add: masked_select_batch_rule_def counted_masked_select_def
        moveBatchDimToFront_def movedim_front_def size_at_def dim_def select_self_def
        Let_def split: sum.splits prod.splits)
  from e1 e2 n a c r show ?thesis by blast
qed

text \<open>A mask of one true entry is broadcast over the 3 elements of each of the 2 slots:
  the result has 3 columns, not 1.\<close>

theorem masked_select_counts_broadcast_mask:
  "result_sizes (masked_select_batch_rule at_masked_select select_self (Some 0)
       mask_one_true None ()) = Inr ([2, 3], Some 0)
   \<and> count_true mask_one_true = 1"
  by (simp add: result_sizes_def masked_select_batch_rule_def at_masked_select_def
      masked_select_indices_def broadcast_index_def infer_size_def pad_left_def view_rows_def
      moveBatchDimToFront_def movedim_front_def size_at_def maybePadToLogicalRank_def
      rankWithoutBatchDim_def dim_def count_true_def select_self_def mask_one_true_def
      Let_def upto.simps)

end
